theory Spec2Isabelle
  imports Main "HOL-Library.Char_ord" "HOL-Library.List_Lexorder" "HOL-Library.Product_Lexorder"
begin

section \<open>Python values shared by the modules\<close>

text \<open>
  Exceptions are values.  \<open>ValueError\<close>, \<open>TypeError\<close> and \<open>OtherError\<close> (any other class
  derived from \<open>Exception\<close>) are what a clause \<open>except Exception\<close> catches; \<open>SystemExit\<close>
  and \<open>KeyboardInterrupt\<close> derive from \<open>BaseException\<close> only and pass such a clause.
  \<open>str_of_error\<close> is Python's \<open>str(e)\<close>: the text the exception was raised with.
\<close>

datatype py_error =
    ValueError string
  | TypeError string
  | OtherError string
  | SystemExit string
  | KeyboardInterrupt string

fun str_of_error :: "py_error \<Rightarrow> string" where
  "str_of_error (ValueError m) = m"
| "str_of_error (TypeError m) = m"
| "str_of_error (OtherError m) = m"
| "str_of_error (SystemExit m) = m"
| "str_of_error (KeyboardInterrupt m) = m"

text \<open>\<open>isinstance(e, Exception)\<close>.\<close>

fun is_exception :: "py_error \<Rightarrow> bool" where
  "is_exception (ValueError m) = True"
| "is_exception (TypeError m) = True"
| "is_exception (OtherError m) = True"
| "is_exception (SystemExit m) = False"
| "is_exception (KeyboardInterrupt m) = False"

text \<open>
  What calling a job body does, as far as the scheduler can see: it returns (the return
  value is never read) or it raises.
\<close>

datatype outcome = Returned | Raised py_error

text \<open>
  \<open>datetime\<close> values of one fixed time zone (every datetime of the scheduler comes from
  \<open>get_china_now\<close>).  \<open>dt_lt\<close> is Python's \<open>a < b\<close> on them.
\<close>

record datetime =
  year :: int
  month :: int
  day :: int
  hour :: int
  minute :: int
  second :: int
  microsecond :: int

definition dt_tuple :: "datetime \<Rightarrow> int list" where
  "dt_tuple t = [year t, month t, day t, hour t, minute t, second t, microsecond t]"

definition dt_lt :: "datetime \<Rightarrow> datetime \<Rightarrow> bool" where
  "dt_lt a b = (dt_tuple a < dt_tuple b)"

text \<open>Python's \<open>str\<close> of an integer.\<close>

fun str_nat :: "nat \<Rightarrow> string" where
  "str_nat n = (if n < 10 then [''0123456789'' ! n]
                else str_nat (n div 10) @ [''0123456789'' ! (n mod 10)])"

definition str_int :: "int \<Rightarrow> string" where
  "str_int i = (if i < 0 then CHR ''-'' # str_nat (nat (- i)) else str_nat (nat i))"

section \<open>Python's datetime, as far as the scheduler uses it\<close>

text \<open>
  \<open>replace\<close> checks the new fields in the order hour, minute, second, microsecond and
  raises \<open>ValueError\<close> on the first one out of range.  \<open>weekday\<close> is computed from the
  proleptic Gregorian ordinal as CPython does (Monday is 0).
\<close>

definition dt_replace ::
  "datetime \<Rightarrow> int option \<Rightarrow> int option \<Rightarrow> int option \<Rightarrow> int option \<Rightarrow> py_error + datetime" where
  "dt_replace t h m s us =
     (let h' = (case h of None \<Rightarrow> hour t | Some v \<Rightarrow> v);
          m' = (case m of None \<Rightarrow> minute t | Some v \<Rightarrow> v);
          s' = (case s of None \<Rightarrow> second t | Some v \<Rightarrow> v);
          us' = (case us of None \<Rightarrow> microsecond t | Some v \<Rightarrow> v)
      in if \<not> (0 \<le> h' \<and> h' \<le> 23) then Inl (ValueError ''hour must be in 0..23'')
         else if \<not> (0 \<le> m' \<and> m' \<le> 59) then Inl (ValueError ''minute must be in 0..59'')
         else if \<not> (0 \<le> s' \<and> s' \<le> 59) then Inl (ValueError ''second must be in 0..59'')
         else if \<not> (0 \<le> us' \<and> us' \<le> 999999)
              then Inl (ValueError ''microsecond must be in 0..999999'')
         else Inr (t\<lparr>hour := h', minute := m', second := s', microsecond := us'\<rparr>))"

definition is_leap :: "int \<Rightarrow> bool" where
  "is_leap y = (y mod 4 = 0 \<and> (y mod 100 \<noteq> 0 \<or> y mod 400 = 0))"

definition days_before_year :: "int \<Rightarrow> int" where
  "days_before_year y = (let y1 = y - 1 in y1 * 365 + y1 div 4 - y1 div 100 + y1 div 400)"

definition days_before_month :: "int \<Rightarrow> int \<Rightarrow> int" where
  "days_before_month y m =
     [0, 31, 59, 90, 120, 151, 181, 212, 243, 273, 304, 334] ! nat (m - 1)
       + (if m > 2 \<and> is_leap y then 1 else 0)"

definition toordinal :: "datetime \<Rightarrow> int" where
  "toordinal t = days_before_year (year t) + days_before_month (year t) (month t) + day t"

definition weekday :: "datetime \<Rightarrow> int" where
  "weekday t = (toordinal t + 6) mod 7"

definition days_in_month :: "int \<Rightarrow> int \<Rightarrow> int" where
  "days_in_month y m =
     (if m = 2 \<and> is_leap y then 29
      else [31, 28, 31, 30, 31, 30, 31, 31, 30, 31, 30, 31] ! nat (m - 1))"

text \<open>\<open>t + timedelta(days=1)\<close>; past the last day of year 9999 it raises \<open>OverflowError\<close>.\<close>

definition plus_one_day :: "datetime \<Rightarrow> py_error + datetime" where
  "plus_one_day t =
     (if day t < days_in_month (year t) (month t) then Inr (t\<lparr>day := day t + 1\<rparr>)
      else if month t < 12 then Inr (t\<lparr>month := month t + 1, day := 1\<rparr>)
      else if year t < 9999 then Inr (t\<lparr>year := year t + 1, month := 1, day := 1\<rparr>)
      else Inl (OtherError ''date value out of range''))"

definition zero_pad :: "nat \<Rightarrow> int \<Rightarrow> string" where
  "zero_pad w i = (let d = str_int i in replicate (w - length d) CHR ''0'' @ d)"

definition strftime_date :: "datetime \<Rightarrow> string" where
  "strftime_date t = zero_pad 4 (year t) @ ''-'' @ zero_pad 2 (month t) @ ''-'' @ zero_pad 2 (day t)"

definition strftime_time :: "datetime \<Rightarrow> string" where
  "strftime_time t =
     zero_pad 2 (hour t) @ '':'' @ zero_pad 2 (minute t) @ '':'' @ zero_pad 2 (second t)"

text \<open>
  The fields of a datetime that Python can build: the time of day and the calendar date.
\<close>

definition valid_time :: "datetime \<Rightarrow> bool" where
  "valid_time t = (0 \<le> hour t \<and> hour t \<le> 23 \<and> 0 \<le> minute t \<and> minute t \<le> 59 \<and>
                   0 \<le> second t \<and> second t \<le> 59)"

definition valid_date :: "datetime \<Rightarrow> bool" where
  "valid_date t = (1 \<le> year t \<and> year t \<le> 9999 \<and> 1 \<le> month t \<and> month t \<le> 12 \<and>
                   1 \<le> day t \<and> day t \<le> days_in_month (year t) (month t))"

section \<open>job_execution_tracker.py: the execution record store\<close>

text \<open>
  One row of the table \<open>herojobexecutions\<close>.  The row's PartitionKey (username) and RowKey
  (execution id) are the key of the table below; the times are kept as the datetime whose
  \<open>isoformat()\<close> the source stores, \<open>None\<close> where the source stores \<open>None\<close>.
\<close>

record entity =
  job_id :: string
  job_type :: string
  scheduled_time :: "datetime option"
  execution_start_time :: "datetime option"
  execution_end_time :: "datetime option"
  status :: string
  error_message :: "string option"

text \<open>
  The table client: \<open>get_entity\<close> raises exactly when the key is absent, \<open>update_entity\<close>
  and \<open>upsert_entity\<close> write the row under its keys.  The module global
  \<open>_job_executions_table\<close> is \<open>None\<close> until \<open>initialize_job_executions_table\<close> has run.
\<close>

type_synonym table = "string \<times> string \<rightharpoonup> entity"

definition truthy :: "string option \<Rightarrow> bool" where
  "truthy m = (case m of None \<Rightarrow> False | Some s \<Rightarrow> s \<noteq> [])"

definition apply_status :: "datetime \<Rightarrow> string \<Rightarrow> string option \<Rightarrow> entity \<Rightarrow> entity" where
  "apply_status now new_status msg e =
     (let e1 = e\<lparr>status := new_status\<rparr> in
      if new_status = ''running'' then
        (if execution_start_time e1 = None
         then e1\<lparr>execution_start_time := Some now\<rparr> else e1)
      else if new_status = ''completed'' \<or> new_status = ''failed'' then
        (let e2 = e1\<lparr>execution_end_time := Some now\<rparr> in
         if truthy msg then e2\<lparr>error_message := msg\<rparr> else e2)
      else e1)"

definition update_job_execution_status ::
  "table option \<Rightarrow> datetime \<Rightarrow> string \<Rightarrow> string \<Rightarrow> string \<Rightarrow> string option \<Rightarrow> table option" where
  "update_job_execution_status tbl now username execution_id new_status msg =
     (case tbl of
        None \<Rightarrow> None
      | Some t \<Rightarrow>
          (case t (username, execution_id) of
             None \<Rightarrow> Some t
           | Some e \<Rightarrow> Some (t((username, execution_id) \<mapsto> apply_status now new_status msg e))))"

definition generate_execution_id :: "string \<Rightarrow> datetime \<Rightarrow> string" where
  "generate_execution_id jid t = jid @ ''_'' @ strftime_date t @ ''_'' @ strftime_time t"

definition pending_entity :: "string \<Rightarrow> string \<Rightarrow> datetime \<Rightarrow> entity" where
  "pending_entity jid jtype t =
     \<lparr>job_id = jid, job_type = jtype, scheduled_time = Some t, execution_start_time = None,
      execution_end_time = None, status = ''pending'', error_message = None\<rparr>"

text \<open>
  \<open>upsert_entity\<close> in its default mode merges: a property whose value is \<open>None\<close> is not
  written, so on an existing row the stored execution times and error message stay, and
  the job id, job type, scheduled time and status are overwritten.
\<close>

definition upsert_pending :: "entity option \<Rightarrow> string \<Rightarrow> string \<Rightarrow> datetime \<Rightarrow> entity" where
  "upsert_pending old jid jtype t =
     (case old of
        None \<Rightarrow> pending_entity jid jtype t
      | Some e \<Rightarrow> e\<lparr>job_id := jid, job_type := jtype, scheduled_time := Some t,
                      status := ''pending''\<rparr>)"

text \<open>
  \<open>create_job_execution_record\<close> returns the new table and the execution id, \<open>None\<close> for
  the id when the table is not initialised.
\<close>

definition create_job_execution_record ::
  "table option \<Rightarrow> string \<Rightarrow> string \<Rightarrow> string \<Rightarrow> datetime \<Rightarrow> table option \<times> string option" where
  "create_job_execution_record tbl username jid jtype t =
     (case tbl of
        None \<Rightarrow> (None, None)
      | Some tb \<Rightarrow>
          (let execution_id = generate_execution_id jid t
           in (Some (tb((username, execution_id) \<mapsto>
                       upsert_pending (tb (username, execution_id)) jid jtype t)),
               Some execution_id)))"

text \<open>
  Queries.  A map has no order of its own, so the queries take \<open>rows\<close>, the row keys in the
  order in which the table service lists them; a key of \<open>rows\<close> without a row in the table
  is passed over.  \<open>query_entities\<close> yields the rows that satisfy the filter, each with its
  keys.
\<close>

type_synonym row = "(string \<times> string) \<times> entity"

definition query_entities :: "table \<Rightarrow> (string \<times> string) list \<Rightarrow> (entity \<Rightarrow> bool) \<Rightarrow> row list" where
  "query_entities t rows P =
     concat (map (\<lambda>k. case t k of None \<Rightarrow> [] | Some e \<Rightarrow> if P e then [(k, e)] else []) rows)"

definition scheduled_before :: "datetime \<Rightarrow> entity \<Rightarrow> bool" where
  "scheduled_before now e = (case scheduled_time e of None \<Rightarrow> False | Some st \<Rightarrow> dt_lt st now)"

definition get_missed_jobs :: "table option \<Rightarrow> (string \<times> string) list \<Rightarrow> datetime \<Rightarrow> row list" where
  "get_missed_jobs tbl rows china_now =
     (case tbl of
        None \<Rightarrow> []
      | Some t \<Rightarrow>
          filter (\<lambda>r. scheduled_before china_now (snd r))
            (query_entities t rows (\<lambda>e. status e = ''pending'' \<or> status e = ''running'')))"

definition cleanup_old_job_records ::
  "table option \<Rightarrow> (string \<times> string) list \<Rightarrow> datetime \<Rightarrow> table option" where
  "cleanup_old_job_records tbl rows before_date =
     (case tbl of
        None \<Rightarrow> None
      | Some t \<Rightarrow>
          Some (foldl (\<lambda>t' r. t'(fst r := None)) t
                  (query_entities t rows (scheduled_before before_date))))"

definition start_of_day :: "datetime \<Rightarrow> datetime" where
  "start_of_day t = t\<lparr>hour := 0, minute := 0, second := 0, microsecond := 0\<rparr>"

definition check_job_records_exist_for_date ::
  "table option \<Rightarrow> (string \<times> string) list \<Rightarrow> datetime \<Rightarrow> bool" where
  "check_job_records_exist_for_date tbl rows target_date =
     (case tbl of
        None \<Rightarrow> False
      | Some t \<Rightarrow>
          (case plus_one_day (start_of_day target_date) of
             Inl e \<Rightarrow> False
           | Inr end_of_day \<Rightarrow>
               query_entities t rows
                 (\<lambda>e. case scheduled_time e of
                         None \<Rightarrow> False
                       | Some st \<Rightarrow> \<not> dt_lt st (start_of_day target_date) \<and> dt_lt st end_of_day)
               \<noteq> []))"

section \<open>request_utils.py: the active request registry\<close>

datatype account_names = Single string | Several "string list"

record request_info =
  ri_username :: string
  ri_request_type :: string
  ri_account_names :: account_names
  ri_start_time :: datetime

text \<open>
  The globals \<open>active_requests\<close> and \<open>request_lock\<close> are set together by
  \<open>set_request_globals\<close>: \<open>None\<close> is the state before that call.
\<close>

type_synonym registry = "(string \<rightharpoonup> request_info) option"

text \<open>
  \<open>py_hash\<close> is Python's \<open>hash\<close> on a tuple of strings: fixed within one process, so it
  is a parameter.
\<close>

definition get_request_key :: "(string list \<Rightarrow> int) \<Rightarrow> string \<Rightarrow> string \<Rightarrow> account_names \<Rightarrow> string" where
  "get_request_key py_hash username request_type names =
     (let account_list = (case names of Single s \<Rightarrow> [s] | Several l \<Rightarrow> l);
          sorted_accounts = sort account_list;
          accounts_hash = py_hash sorted_accounts
      in username @ '':'' @ request_type @ '':'' @ str_int accounts_hash)"

definition is_request_active ::
  "(string list \<Rightarrow> int) \<Rightarrow> registry \<Rightarrow> string \<Rightarrow> string \<Rightarrow> account_names \<Rightarrow> bool" where
  "is_request_active py_hash reg username request_type names =
     (case reg of
        None \<Rightarrow> False
      | Some active_requests \<Rightarrow>
          get_request_key py_hash username request_type names \<in> dom active_requests)"

definition mark_request_active ::
  "(string list \<Rightarrow> int) \<Rightarrow> datetime \<Rightarrow> registry \<Rightarrow> string \<Rightarrow> string \<Rightarrow> account_names
     \<Rightarrow> bool \<times> registry" where
  "mark_request_active py_hash now reg username request_type names =
     (case reg of
        None \<Rightarrow> (False, None)
      | Some active_requests \<Rightarrow>
          (let key = get_request_key py_hash username request_type names in
           if key \<in> dom active_requests then (False, Some active_requests)
           else (True, Some (active_requests(key \<mapsto>
                   \<lparr>ri_username = username, ri_request_type = request_type,
                    ri_account_names = names, ri_start_time = now\<rparr>)))))"

definition mark_request_inactive ::
  "(string list \<Rightarrow> int) \<Rightarrow> registry \<Rightarrow> string \<Rightarrow> string \<Rightarrow> account_names \<Rightarrow> registry" where
  "mark_request_inactive py_hash reg username request_type names =
     (case reg of
        None \<Rightarrow> None
      | Some active_requests \<Rightarrow>
          (let key = get_request_key py_hash username request_type names in
           if key \<in> dom active_requests
           then Some (active_requests(key := None)) else Some active_requests))"

section \<open>job_scheduler.py: ExecutorManager\<close>

text \<open>
  \<open>executors\<close> maps an executor id to the pair of the callable and its display name.  A
  callable takes the positional arguments it is called with (type \<open>'a\<close>).
\<close>

type_synonym 'a executors = "string \<rightharpoonup> (('a \<Rightarrow> outcome) \<times> string)"

definition register_executor ::
  "'a executors \<Rightarrow> string \<Rightarrow> ('a \<Rightarrow> outcome) \<Rightarrow> string \<Rightarrow> 'a executors" where
  "register_executor executors executor_id executor executor_name =
     executors(executor_id \<mapsto> (executor, executor_name))"

definition get_executor :: "'a executors \<Rightarrow> string \<Rightarrow> ('a \<Rightarrow> outcome) option" where
  "get_executor executors executor_id = map_option fst (executors executor_id)"

definition execute_job :: "'a executors \<Rightarrow> string \<Rightarrow> 'a \<Rightarrow> py_error + unit" where
  "execute_job executors executor_id args =
     (case executors executor_id of
        Some executor_info \<Rightarrow>
          (case fst executor_info args of Returned \<Rightarrow> Inr () | Raised e \<Rightarrow> Inl e)
      | None \<Rightarrow> Inl (ValueError (''Executor '' @ executor_id @ '' not found'')))"


section \<open>job_scheduler.py: JobScheduler.run_jobs\<close>

definition DAILY :: string where "DAILY = ''daily''"
definition HOURLY :: string where "HOURLY = ''hourly''"
definition WEEKLY :: string where "WEEKLY = ''weekly''"

text \<open>
  A value of a job's settings that the code passes to \<open>int(...)\<close>: the key may be absent,
  hold something \<open>int\<close> rejects, or hold a number (as an integer or as its decimal string).
\<close>

datatype cfg_field = Absent | Unparsable | Num int

text \<open>
  \<open>cfg_type\<close> is \<open>job_config.get('type')\<close>, \<open>cfg_enabled\<close> the truth value of
  \<open>job_config.get('enabled', False)\<close>.
\<close>

record job_config =
  cfg_type :: "string option"
  cfg_enabled :: bool
  cfg_hour :: cfg_field
  cfg_minute :: cfg_field
  cfg_day_of_week :: cfg_field
  cfg_account_names :: "string list"

text \<open>
  \<open>get_int f d\<close> is \<open>int(job_config.get(key, d))\<close>, and \<open>get_int f None\<close> is
  \<open>int(job_config.get(key))\<close>, which raises \<open>TypeError\<close> on an absent key.
\<close>

definition get_int :: "cfg_field \<Rightarrow> int option \<Rightarrow> py_error + int" where
  "get_int f d =
     (case f of
        Num n \<Rightarrow> Inr n
      | Unparsable \<Rightarrow> Inl (ValueError ''invalid literal for int()'')
      | Absent \<Rightarrow>
          (case d of
             Some v \<Rightarrow> Inr v
           | None \<Rightarrow> Inl (TypeError ''int() argument must not be NoneType'')))"

text \<open>
  One row of \<open>get_all_users_from_db\<close>: \<open>user_type\<close> is \<open>get('user_type', 'player')\<close>,
  \<open>job_scheduling_enabled\<close> the truth value of \<open>get('job_scheduling_enabled', True)\<close>, and
  \<open>job_settings\<close> the dictionary that \<open>json.loads\<close> yields, in its iteration order (empty
  when the string is empty or does not parse).
\<close>

record user_settings =
  user_type :: string
  job_scheduling_enabled :: bool
  job_settings :: "(string \<times> job_config) list"

text \<open>
  Lines 381 to 400 of \<open>run_jobs\<close>: the pair \<open>(should_run, priority)\<close> of one enabled job
  of the pass's type, or the exception that \<open>int\<close> raises.  In the weekly branch the hour
  is read only when the weekday matches (\<open>and\<close> is lazy).
\<close>

definition due_check :: "string \<Rightarrow> datetime \<Rightarrow> job_config \<Rightarrow> py_error + (bool \<times> int)" where
  "due_check jtype china_now cfg =
     (if jtype = DAILY then
        (case get_int (cfg_hour cfg) None of
           Inl e \<Rightarrow> Inl e
         | Inr scheduled_hour \<Rightarrow>
             (case get_int (cfg_minute cfg) (Some 0) of
                Inl e \<Rightarrow> Inl e
              | Inr scheduled_minute \<Rightarrow>
                  if hour china_now = scheduled_hour \<and>
                     (minute china_now = scheduled_minute \<or>
                      minute china_now = scheduled_minute + 1)
                  then Inr (True, scheduled_hour * 60 + scheduled_minute)
                  else Inr (False, 0)))
      else if jtype = HOURLY then
        (case get_int (cfg_minute cfg) (Some 0) of
           Inl e \<Rightarrow> Inl e
         | Inr m \<Rightarrow> if minute china_now = m then Inr (True, m) else Inr (False, 0))
      else if jtype = WEEKLY then
        (case get_int (cfg_day_of_week cfg) None of
           Inl e \<Rightarrow> Inl e
         | Inr d \<Rightarrow>
             if weekday china_now = d then
               (case get_int (cfg_hour cfg) None of
                  Inl e \<Rightarrow> Inl e
                | Inr h \<Rightarrow> if hour china_now = h then Inr (True, d * 24 + h) else Inr (False, 0))
             else Inr (False, 0))
      else Inr (False, 0))"

text \<open>
  The in-memory tracker \<open>job_execution_tracker\<close>: keys \<open>(username, job_id, date string)\<close>,
  values the time of recording.
\<close>

type_synonym tracker = "string \<times> string \<times> string \<rightharpoonup> datetime"

definition has_job_executed_today :: "tracker \<Rightarrow> string \<Rightarrow> string \<Rightarrow> datetime \<Rightarrow> bool" where
  "has_job_executed_today tr username jid china_now =
     ((username, jid, strftime_date china_now) \<in> dom tr)"

definition record_job_execution :: "tracker \<Rightarrow> string \<Rightarrow> string \<Rightarrow> datetime \<Rightarrow> tracker" where
  "record_job_execution tr username jid china_now =
     tr((username, jid, strftime_date china_now) \<mapsto> china_now)"

text \<open>Lines 409 to 423: the scheduled time of a due job.\<close>

definition scheduled_time_of :: "string \<Rightarrow> datetime \<Rightarrow> job_config \<Rightarrow> py_error + datetime" where
  "scheduled_time_of jtype china_now cfg =
     (case dt_replace china_now None None (Some 0) (Some 0) of
        Inl e \<Rightarrow> Inl e
      | Inr t \<Rightarrow>
          if jtype = DAILY \<or> jtype = WEEKLY then
            (case get_int (cfg_hour cfg) None of
               Inl e \<Rightarrow> Inl e
             | Inr h \<Rightarrow>
                 (case get_int (cfg_minute cfg) (Some 0) of
                    Inl e \<Rightarrow> Inl e
                  | Inr m \<Rightarrow> dt_replace t (Some h) (Some m) None None))
          else if jtype = HOURLY then
            (case get_int (cfg_minute cfg) (Some 0) of
               Inl e \<Rightarrow> Inl e
             | Inr m \<Rightarrow> dt_replace t None (Some m) None None)
          else Inr t)"

text \<open>
  An element of the priority queue, the tuple
  \<open>(priority, counter, username, user_settings_data, job_id, job_config, execution_id)\<close>.
  Tuples are compared from the left and no two elements share a counter, so the queue's
  order is the order of \<open>(priority, counter)\<close>: \<open>put\<close> is an ordered insertion on that key
  and \<open>get\<close> takes the head.
\<close>

record queue_entry =
  priority :: int
  counter :: nat
  q_username :: string
  q_user_settings :: user_settings
  q_job_id :: string
  q_job_config :: job_config
  q_execution_id :: string

definition queue_key :: "queue_entry \<Rightarrow> int \<times> nat" where
  "queue_key e = (priority e, counter e)"

definition put :: "queue_entry \<Rightarrow> queue_entry list \<Rightarrow> queue_entry list" where
  "put e q = insort_key queue_key e q"

record collect_state =
  cs_table :: "table option"
  cs_queue :: "queue_entry list"
  cs_counter :: nat

text \<open>
  Lines 425 to 443: look the record up and create it when the lookup fails.  The flag
  \<open>record_exists\<close> is set and never read, so an existing record changes nothing here.
\<close>

definition get_or_create_record ::
  "table option \<Rightarrow> string \<Rightarrow> string \<Rightarrow> string \<Rightarrow> datetime \<Rightarrow> table option \<times> string" where
  "get_or_create_record tbl username jid jtype t =
     (let execution_id = generate_execution_id jid t in
      case tbl of
        None \<Rightarrow> (None, execution_id)
      | Some tb \<Rightarrow>
          (case tb (username, execution_id) of
             Some e \<Rightarrow> (Some tb, execution_id)
           | None \<Rightarrow>
               (case create_job_execution_record (Some tb) username jid jtype t of
                  (tbl', Some x) \<Rightarrow> (tbl', x)
                | (tbl', None) \<Rightarrow> (tbl', generate_execution_id jid t))))"

text \<open>The body of the loop over one user's jobs (lines 379 to 450).\<close>

definition collect_job ::
  "string \<Rightarrow> datetime \<Rightarrow> tracker \<Rightarrow> string \<Rightarrow> user_settings \<Rightarrow> string \<Rightarrow> job_config
     \<Rightarrow> collect_state \<Rightarrow> py_error + collect_state" where
  "collect_job jtype china_now tr username settings jid cfg s =
     (if cfg_type cfg = Some jtype \<and> cfg_enabled cfg then
        (case due_check jtype china_now cfg of
           Inl e \<Rightarrow> Inl e
         | Inr (should_run, prio) \<Rightarrow>
             if should_run then
               (if (jtype = DAILY \<or> jtype = WEEKLY) \<and>
                   has_job_executed_today tr username jid china_now
                then Inr s
                else
                  (case scheduled_time_of jtype china_now cfg of
                     Inl e \<Rightarrow> Inl e
                   | Inr t \<Rightarrow>
                       (case get_or_create_record (cs_table s) username jid jtype t of
                          (tbl', execution_id) \<Rightarrow>
                            if execution_id \<noteq> [] then
                              Inr \<lparr>cs_table = tbl',
                                   cs_queue = put \<lparr>priority = prio, counter = cs_counter s,
                                     q_username = username, q_user_settings = settings,
                                     q_job_id = jid, q_job_config = cfg,
                                     q_execution_id = execution_id\<rparr> (cs_queue s),
                                   cs_counter = cs_counter s + 1\<rparr>
                            else Inr (s\<lparr>cs_table := tbl'\<rparr>))))
             else Inr s)
      else Inr s)"

text \<open>
  The loops stop at the first exception, which leaves \<open>run_jobs\<close>: the result is the
  state reached and the exception, if any.
\<close>

fun collect_user_jobs ::
  "string \<Rightarrow> datetime \<Rightarrow> tracker \<Rightarrow> string \<Rightarrow> user_settings \<Rightarrow> (string \<times> job_config) list
     \<Rightarrow> collect_state \<Rightarrow> collect_state \<times> py_error option" where
  "collect_user_jobs jtype china_now tr username settings [] s = (s, None)"
| "collect_user_jobs jtype china_now tr username settings ((jid, cfg) # rest) s =
     (case collect_job jtype china_now tr username settings jid cfg s of
        Inl e \<Rightarrow> (s, Some e)
      | Inr s' \<Rightarrow> collect_user_jobs jtype china_now tr username settings rest s')"

fun collect_users ::
  "string \<Rightarrow> datetime \<Rightarrow> tracker \<Rightarrow> (string \<times> user_settings) list
     \<Rightarrow> collect_state \<Rightarrow> collect_state \<times> py_error option" where
  "collect_users jtype china_now tr [] s = (s, None)"
| "collect_users jtype china_now tr ((username, settings) # rest) s =
     (if user_type settings = ''admin'' then collect_users jtype china_now tr rest s
      else if \<not> job_scheduling_enabled settings then collect_users jtype china_now tr rest s
      else
        (case collect_user_jobs jtype china_now tr username settings (job_settings settings) s of
           (s', Some e) \<Rightarrow> (s', Some e)
         | (s', None) \<Rightarrow> collect_users jtype china_now tr rest s'))"

text \<open>
  Lines 462 to 473: the submission loop.  \<open>is_set k\<close> is what
  \<open>shutdown_requested.is_set()\<close> answers at the loop's \<open>k\<close>-th test; the result is the list
  of the entries submitted to the pool, in the order of submission.
\<close>

fun submit_loop :: "(nat \<Rightarrow> bool) \<Rightarrow> nat \<Rightarrow> queue_entry list \<Rightarrow> queue_entry list" where
  "submit_loop is_set k [] = []"
| "submit_loop is_set k (e # q) =
     (if is_set k then [] else e # submit_loop is_set (Suc k) q)"

text \<open>
  \<open>run_jobs\<close> up to the end of the submission loop.  \<open>shutdown_at_entry\<close> and \<open>paused\<close>
  are what the two tests at the top of \<open>run_jobs\<close> read.  The result is the table, the
  entries submitted to the pool in the order of submission, and the exception that left
  \<open>run_jobs\<close> during collection, if any.
\<close>

definition run_jobs_submissions ::
  "bool \<Rightarrow> bool \<Rightarrow> (nat \<Rightarrow> bool) \<Rightarrow> string \<Rightarrow> datetime \<Rightarrow> tracker \<Rightarrow> table option
     \<Rightarrow> (string \<times> user_settings) list \<Rightarrow> table option \<times> queue_entry list \<times> py_error option" where
  "run_jobs_submissions shutdown_at_entry paused is_set jtype china_now tr tbl users =
     (if shutdown_at_entry then (tbl, [], None)
      else if paused then (tbl, [], None)
      else
        (case collect_users jtype china_now tr users
                \<lparr>cs_table = tbl, cs_queue = [], cs_counter = 0\<rparr> of
           (s, Some e) \<Rightarrow> (cs_table s, [], Some e)
         | (s, None) \<Rightarrow> (cs_table s, submit_loop is_set 0 (cs_queue s), None)))"

section \<open>job_scheduler.py: JobScheduler._execute_single_job\<close>

text \<open>
  The state the workers share: the record table, the \<open>active_jobs\<close> dictionary (\<open>None\<close>
  until \<open>set_shutdown_globals\<close> has run), the in-memory tracker, and a log of what happened,
  in order: each call of \<open>update_job_execution_status\<close>, each insertion into and removal
  from \<open>active_jobs\<close>, and each call \<open>executor(username, job_config)\<close> of a job's
  executor, noted with the job type, the execution id and the time \<open>china_now\<close> of the code
  that made the call.
\<close>

record invocation =
  iv_job_type :: string
  iv_job_id :: string
  iv_username :: string
  iv_config :: job_config
  iv_execution_id :: string
  iv_china_now :: datetime

datatype event =
    MarkStatus string string string
  | ActiveAdd string
  | ActiveRemove string
  | Invoke invocation

record active_job =
  aj_username :: string
  aj_job_id :: string
  aj_start_time :: datetime

record sched_state =
  st_table :: "table option"
  st_active_jobs :: "(string \<rightharpoonup> active_job) option"
  st_tracker :: tracker
  st_events :: "event list"

text \<open>
  The clock readings of one worker: \<open>time.time()\<close> at entry, and \<open>get_china_now()\<close> inside
  the update to \<open>running\<close>, inside the later update of the \<open>try\<close> block (to \<open>completed\<close>, or
  to \<open>failed\<close> for a missing executor), and inside the update of the \<open>except\<close> clause.
\<close>

record clock_readings =
  c_start :: datetime
  c_running :: datetime
  c_end :: datetime
  c_except :: datetime

definition do_update ::
  "sched_state \<Rightarrow> datetime \<Rightarrow> string \<Rightarrow> string \<Rightarrow> string \<Rightarrow> string option \<Rightarrow> sched_state" where
  "do_update s now username execution_id new_status msg =
     s\<lparr>st_table := update_job_execution_status (st_table s) now username execution_id new_status msg,
       st_events := st_events s @ [MarkStatus username execution_id new_status]\<rparr>"

definition active_add :: "sched_state \<Rightarrow> string \<Rightarrow> active_job \<Rightarrow> sched_state" where
  "active_add s execution_id aj =
     (case st_active_jobs s of
        None \<Rightarrow> s
      | Some m \<Rightarrow> s\<lparr>st_active_jobs := Some (m(execution_id \<mapsto> aj)),
                     st_events := st_events s @ [ActiveAdd execution_id]\<rparr>)"

definition active_pop :: "sched_state \<Rightarrow> string \<Rightarrow> sched_state" where
  "active_pop s execution_id =
     (case st_active_jobs s of
        None \<Rightarrow> s
      | Some m \<Rightarrow> s\<lparr>st_active_jobs := Some (m(execution_id := None)),
                     st_events := st_events s @ [ActiveRemove execution_id]\<rparr>)"

type_synonym job_executors = "(string \<times> job_config) executors"

text \<open>Lines 540 to 560: the scheduled time of the next run of an hourly job.\<close>

definition next_hourly_time :: "datetime \<Rightarrow> job_config \<Rightarrow> py_error + datetime" where
  "next_hourly_time china_now cfg =
     (case get_int (cfg_minute cfg) (Some 0) of
        Inl e \<Rightarrow> Inl e
      | Inr scheduled_minute \<Rightarrow>
          (let next_hour = hour china_now + 1 in
           if next_hour \<ge> 24 then
             (case plus_one_day china_now of
                Inl e \<Rightarrow> Inl e
              | Inr t \<Rightarrow> dt_replace t (Some 0) (Some scheduled_minute) (Some 0) (Some 0))
           else dt_replace china_now (Some next_hour) (Some scheduled_minute) (Some 0) (Some 0)))"

text \<open>
  The \<open>try\<close> block (lines 500 to 564): the state where the block ends, and the exception
  that ended it, if any.  \<open>get_user_logger username\<close> is what the call of that name does:
  it returns the user's logger or raises (it creates the user's log directory and files).
\<close>

definition job_body ::
  "job_executors \<Rightarrow> (string \<Rightarrow> outcome) \<Rightarrow> clock_readings \<Rightarrow> string \<Rightarrow> string \<Rightarrow> job_config
     \<Rightarrow> string \<Rightarrow> datetime \<Rightarrow> string \<Rightarrow> sched_state \<Rightarrow> sched_state \<times> py_error option" where
  "job_body exs get_user_logger clk username jid cfg jtype china_now execution_id s =
     (let s1 = do_update s (c_running clk) username execution_id ''running'' None;
          s2 = active_add s1 execution_id
                 \<lparr>aj_username = username, aj_job_id = jid, aj_start_time = c_start clk\<rparr>
      in case get_user_logger username of
           Raised e \<Rightarrow> (s2, Some e)
         | Returned \<Rightarrow>
             (case exs jid of
                None \<Rightarrow>
                  (do_update s2 (c_end clk) username execution_id ''failed''
                     (Some (''Executor not found for job '' @ jid)), None)
              | Some executor_info \<Rightarrow>
                  (let s3 = (if jtype = DAILY \<or> jtype = WEEKLY
                             then s2\<lparr>st_tracker :=
                                      record_job_execution (st_tracker s2) username jid china_now\<rparr>
                             else s2);
                       s4 = s3\<lparr>st_events := st_events s3 @
                               [Invoke \<lparr>iv_job_type = jtype, iv_job_id = jid, iv_username = username,
                                  iv_config = cfg, iv_execution_id = execution_id,
                                  iv_china_now = china_now\<rparr>]\<rparr>
                   in case fst executor_info (username, cfg) of
                        Raised e \<Rightarrow> (s4, Some e)
                      | Returned \<Rightarrow>
                          (let s5 = do_update s4 (c_end clk) username execution_id ''completed'' None
                           in if jtype = HOURLY then
                                (case next_hourly_time china_now cfg of
                                   Inl e \<Rightarrow> (s5, Some e)
                                 | Inr next_scheduled_time \<Rightarrow>
                                     (s5\<lparr>st_table := fst (create_job_execution_record (st_table s5)
                                           username jid jtype next_scheduled_time)\<rparr>, None))
                              else (s5, None)))))"

text \<open>
  The whole worker.  The clause \<open>except Exception\<close> marks the record failed with \<open>str(e)\<close>;
  an exception that is no \<open>Exception\<close> passes it and leaves the worker.  The \<open>finally\<close>
  clause removes the entry of \<open>active_jobs\<close> in either case.  The result is the state and the
  exception that leaves the worker, if any.
\<close>

definition execute_single_job ::
  "job_executors \<Rightarrow> (string \<Rightarrow> outcome) \<Rightarrow> clock_readings \<Rightarrow> string \<Rightarrow> string \<Rightarrow> job_config
     \<Rightarrow> string \<Rightarrow> datetime \<Rightarrow> string \<Rightarrow> sched_state \<Rightarrow> sched_state \<times> py_error option" where
  "execute_single_job exs get_user_logger clk username jid cfg jtype china_now execution_id s =
     (case job_body exs get_user_logger clk username jid cfg jtype china_now execution_id s of
        (s', None) \<Rightarrow> (active_pop s' execution_id, None)
      | (s', Some e) \<Rightarrow>
          if is_exception e then
            (active_pop
               (do_update s' (c_except clk) username execution_id ''failed''
                  (Some (str_of_error e)))
               execution_id, None)
          else (active_pop s' execution_id, Some e))"

section \<open>job_scheduler.py and main.py: a whole pass, and shutdown\<close>



text \<open>
  The shared flags as they stand at the \<open>k\<close>-th test of the submission loop.  The loop
  reads \<open>shutdown_requested\<close> and does not read \<open>scheduler_paused\<close>.
\<close>

record flags =
  fl_shutdown :: bool
  fl_paused :: bool

definition submit_under :: "(nat \<Rightarrow> flags) \<Rightarrow> queue_entry list \<Rightarrow> queue_entry list" where
  "submit_under env q = submit_loop (\<lambda>k. fl_shutdown (env k)) 0 q"





text \<open>
  The writes of the flags.  \<open>main.py\<close> starts with both flags unset (lines 72 and 73);
  \<open>initiate_shutdown\<close> (endpoints.py, lines 2116 to 2138) is the only code that writes
  them: it sets \<open>shutdown_requested\<close> first and \<open>scheduler_paused\<close> after it, and does
  nothing when the shutdown is already requested.  The result lists the states of the
  flags that the call passes through.
\<close>

definition initiate_shutdown :: "flags \<Rightarrow> flags list" where
  "initiate_shutdown fl =
     (if fl_shutdown fl then [fl]
      else [fl, fl\<lparr>fl_shutdown := True\<rparr>, fl\<lparr>fl_shutdown := True, fl_paused := True\<rparr>])"

section \<open>job_execution_tracker.py: initialize_daily_job_records\<close>

text \<open>
  The row written for a job whose record does not exist yet (lines 556 to 580 and 671 to
  695): completed, with both execution times the scheduled time, when the scheduled time is
  before \<open>china_now\<close>, and pending otherwise.
\<close>

definition initial_entity :: "string \<Rightarrow> string \<Rightarrow> datetime \<Rightarrow> datetime \<Rightarrow> entity" where
  "initial_entity jid jtype t china_now =
     (if dt_lt t china_now
      then \<lparr>job_id = jid, job_type = jtype, scheduled_time = Some t,
            execution_start_time = Some t, execution_end_time = Some t,
            status = ''completed'', error_message = None\<rparr>
      else \<lparr>job_id = jid, job_type = jtype, scheduled_time = Some t,
            execution_start_time = None, execution_end_time = None,
            status = ''pending'', error_message = None\<rparr>)"

definition create_if_absent :: "table \<Rightarrow> string \<Rightarrow> string \<Rightarrow> entity \<Rightarrow> table" where
  "create_if_absent t username execution_id e =
     (case t (username, execution_id) of Some old \<Rightarrow> t | None \<Rightarrow> t((username, execution_id) \<mapsto> e))"

text \<open>Lines 584 to 615: the next scheduled time of an hourly job.\<close>

definition init_hourly_time :: "datetime \<Rightarrow> datetime \<Rightarrow> int \<Rightarrow> py_error + datetime" where
  "init_hourly_time china_now target_date scheduled_minute =
     (if minute china_now \<ge> scheduled_minute then
        (let next_hour = hour china_now + 1 in
         if next_hour \<ge> 24 then
           (case plus_one_day target_date of
              Inl e \<Rightarrow> Inl e
            | Inr t \<Rightarrow> dt_replace t (Some 0) (Some scheduled_minute) (Some 0) (Some 0))
         else dt_replace target_date (Some next_hour) (Some scheduled_minute) (Some 0) (Some 0))
      else dt_replace target_date (Some (hour china_now)) (Some scheduled_minute) (Some 0) (Some 0))"

text \<open>The body of the loop over one user's jobs (lines 528 to 695).\<close>

definition init_job ::
  "datetime \<Rightarrow> datetime \<Rightarrow> string \<Rightarrow> string \<Rightarrow> job_config \<Rightarrow> table \<Rightarrow> py_error + table" where
  "init_job china_now target_date username jid cfg t =
     (if \<not> cfg_enabled cfg then Inr t
      else if cfg_type cfg = Some ''daily'' then
        (case get_int (cfg_hour cfg) (Some 0) of
           Inl e \<Rightarrow> Inl e
         | Inr scheduled_hour \<Rightarrow>
             (case get_int (cfg_minute cfg) (Some 0) of
                Inl e \<Rightarrow> Inl e
              | Inr scheduled_minute \<Rightarrow>
                  (case dt_replace target_date (Some scheduled_hour) (Some scheduled_minute)
                          (Some 0) (Some 0) of
                     Inl e \<Rightarrow> Inl e
                   | Inr st \<Rightarrow>
                       Inr (create_if_absent t username (generate_execution_id jid st)
                              (initial_entity jid ''daily'' st china_now)))))
      else if cfg_type cfg = Some ''hourly'' then
        (case get_int (cfg_minute cfg) (Some 0) of
           Inl e \<Rightarrow> Inl e
         | Inr scheduled_minute \<Rightarrow>
             (case init_hourly_time china_now target_date scheduled_minute of
                Inl e \<Rightarrow> Inl e
              | Inr st \<Rightarrow>
                  Inr (create_if_absent t username (generate_execution_id jid st)
                         (pending_entity jid ''hourly'' st))))
      else if cfg_type cfg = Some ''weekly'' then
        (case get_int (cfg_day_of_week cfg) (Some 0) of
           Inl e \<Rightarrow> Inl e
         | Inr d \<Rightarrow>
             (case get_int (cfg_hour cfg) (Some 0) of
                Inl e \<Rightarrow> Inl e
              | Inr scheduled_hour \<Rightarrow>
                  (case get_int (cfg_minute cfg) (Some 0) of
                     Inl e \<Rightarrow> Inl e
                   | Inr scheduled_minute \<Rightarrow>
                       if weekday target_date = d then
                         (case dt_replace target_date (Some scheduled_hour)
                                 (Some scheduled_minute) (Some 0) (Some 0) of
                            Inl e \<Rightarrow> Inl e
                          | Inr st \<Rightarrow>
                              Inr (create_if_absent t username (generate_execution_id jid st)
                                     (initial_entity jid ''weekly'' st china_now)))
                       else Inr t)))
      else Inr t)"

fun init_user_jobs ::
  "datetime \<Rightarrow> datetime \<Rightarrow> string \<Rightarrow> (string \<times> job_config) list \<Rightarrow> table
     \<Rightarrow> table \<times> py_error option" where
  "init_user_jobs china_now target_date username [] t = (t, None)"
| "init_user_jobs china_now target_date username ((jid, cfg) # rest) t =
     (case init_job china_now target_date username jid cfg t of
        Inl e \<Rightarrow> (t, Some e)
      | Inr t' \<Rightarrow> init_user_jobs china_now target_date username rest t')"

fun init_users ::
  "datetime \<Rightarrow> datetime \<Rightarrow> (string \<times> user_settings) list \<Rightarrow> table \<Rightarrow> table \<times> py_error option" where
  "init_users china_now target_date [] t = (t, None)"
| "init_users china_now target_date ((username, settings) # rest) t =
     (if user_type settings = ''admin'' then init_users china_now target_date rest t
      else if \<not> job_scheduling_enabled settings then init_users china_now target_date rest t
      else
        (case init_user_jobs china_now target_date username (job_settings settings) t of
           (t', Some e) \<Rightarrow> (t', Some e)
         | (t', None) \<Rightarrow> init_users china_now target_date rest t'))"

text \<open>
  The whole function.  \<open>china_now\<close> is the function's own clock reading, \<open>target_date\<close>
  its argument (\<open>None\<close> for the default).  The result is the table and the exception that
  the \<open>except\<close> clause logged, if any; nothing is raised, and no executor is in reach.
\<close>

definition initialize_daily_job_records ::
  "table option \<Rightarrow> (string \<times> string) list \<Rightarrow> datetime \<Rightarrow> datetime option
     \<Rightarrow> (string \<times> user_settings) list \<Rightarrow> table option \<times> py_error option" where
  "initialize_daily_job_records tbl rows china_now target users =
     (case tbl of
        None \<Rightarrow> (None, None)
      | Some t0 \<Rightarrow>
          (let target_date = (case target of None \<Rightarrow> china_now | Some d \<Rightarrow> d) in
           case cleanup_old_job_records (Some t0) rows (start_of_day target_date) of
             None \<Rightarrow> (None, None)
           | Some t \<Rightarrow>
               (case init_users china_now target_date users t of
                  (t', err) \<Rightarrow> (Some t', err))))"

section \<open>main.py: the recovery of missed jobs at startup\<close>

text \<open>
  Absolute time in microseconds, for the difference \<open>china_now - start_time\<close>;
  \<open>hours_old > 2\<close> is the test whether the difference exceeds two hours.
\<close>

definition dt_micros :: "datetime \<Rightarrow> int" where
  "dt_micros t =
     (((toordinal t * 24 + hour t) * 60 + minute t) * 60 + second t) * 1000000 + microsecond t"

definition stuck :: "datetime \<Rightarrow> entity \<Rightarrow> bool" where
  "stuck china_now e =
     (status e = ''running'' \<and>
      (case execution_start_time e of
         None \<Rightarrow> False
       | Some start_time \<Rightarrow> dt_micros china_now - dt_micros start_time > 7200000000))"

text \<open>The \<open>job_config\<close> of a missed job is the empty dictionary.\<close>

definition empty_config :: job_config where
  "empty_config = \<lparr>cfg_type = None, cfg_enabled = False, cfg_hour = Absent, cfg_minute = Absent,
                    cfg_day_of_week = Absent, cfg_account_names = []\<rparr>"

text \<open>
  The body of the loop over the missed jobs (lines 131 to 181), on the row as the query
  returned it.  \<open>fmt_hours\<close> renders the age in hours with one decimal, from the age in
  microseconds.  The result is the state and the exception that leaves the loop, if any:
  what the executor raises is caught by \<open>except Exception\<close> (line 176), which marks the
  record failed, unless it is no \<open>Exception\<close>.
\<close>

definition recover_one ::
  "job_executors \<Rightarrow> (int \<Rightarrow> string) \<Rightarrow> datetime \<Rightarrow> (string \<times> string \<Rightarrow> clock_readings)
     \<Rightarrow> sched_state \<Rightarrow> row \<Rightarrow> sched_state \<times> py_error option" where
  "recover_one exs fmt_hours china_now clk s r =
     (let username = fst (fst r); execution_id = snd (fst r); ent = snd r; c = clk (fst r) in
      if stuck china_now ent then
        (do_update s (c_end c) username execution_id ''failed''
           (Some (''Job was running for '' @
                  fmt_hours (dt_micros china_now - dt_micros (the (execution_start_time ent))) @
                  '' hours, likely stuck'')), None)
      else
        (let s1 = do_update s (c_running c) username execution_id ''running'' None in
         case exs (job_id ent) of
           Some executor_info \<Rightarrow>
             (let s2 = s1\<lparr>st_events := st_events s1 @
                          [Invoke \<lparr>iv_job_type = job_type ent, iv_job_id = job_id ent,
                             iv_username = username, iv_config = empty_config,
                             iv_execution_id = execution_id, iv_china_now = china_now\<rparr>]\<rparr>
              in case fst executor_info (username, empty_config) of
                   Returned \<Rightarrow>
                     (do_update s2 (c_end c) username execution_id ''completed'' None, None)
                 | Raised e \<Rightarrow>
                     if is_exception e then
                       (do_update s2 (c_except c) username execution_id ''failed''
                          (Some (str_of_error e)), None)
                     else (s2, Some e))
         | None \<Rightarrow>
             (do_update s1 (c_end c) username execution_id ''failed''
                (Some (''Executor not found for job '' @ job_id ent)), None)))"

text \<open>The loop over the missed jobs; an exception that leaves the body ends it.\<close>

fun recover_all ::
  "job_executors \<Rightarrow> (int \<Rightarrow> string) \<Rightarrow> datetime \<Rightarrow> (string \<times> string \<Rightarrow> clock_readings)
     \<Rightarrow> row list \<Rightarrow> sched_state \<Rightarrow> sched_state \<times> py_error option" where
  "recover_all exs fmt_hours china_now clk [] s = (s, None)"
| "recover_all exs fmt_hours china_now clk (r # rs) s =
     (case recover_one exs fmt_hours china_now clk s r of
        (s', Some e) \<Rightarrow> (s', Some e)
      | (s', None) \<Rightarrow> recover_all exs fmt_hours china_now clk rs s')"

text \<open>
  \<open>lifespan\<close> before the scheduler thread starts (lines 100 to 187).  Outside production
  nothing is initialised and nothing is run.  In production, without records for today
  the records are initialised and no missed job is run; with records for today the missed
  jobs are run one after the other.  \<open>china_now\<close> is the reading of \<open>lifespan\<close>,
  \<open>now_missed\<close> the one inside \<open>get_missed_jobs\<close>, \<open>now_init\<close> the one inside
  \<open>initialize_daily_job_records\<close>.  The result is the state and the exception that leaves
  \<open>lifespan\<close>, if any: the clause \<open>except Exception\<close> around the loop (line 184) logs what
  it catches.
\<close>

definition lifespan_startup ::
  "string \<Rightarrow> job_executors \<Rightarrow> (int \<Rightarrow> string) \<Rightarrow> (string \<times> string \<Rightarrow> clock_readings)
     \<Rightarrow> (string \<times> string) list \<Rightarrow> (string \<times> user_settings) list
     \<Rightarrow> datetime \<Rightarrow> datetime \<Rightarrow> datetime \<Rightarrow> sched_state \<Rightarrow> sched_state \<times> py_error option" where
  "lifespan_startup api_env exs fmt_hours clk rows users china_now now_missed now_init s =
     (if api_env = ''production'' then
        (if \<not> check_job_records_exist_for_date (st_table s) rows china_now then
           (s\<lparr>st_table :=
                fst (initialize_daily_job_records (st_table s) rows now_init (Some china_now)
                       users)\<rparr>, None)
         else
           recover_all exs fmt_hours china_now clk
             (get_missed_jobs (st_table s) rows now_missed) s)
      else (s, None))"

section \<open>Reading the log\<close>

text \<open>
  \<open>concerns k ev\<close>: the event \<open>ev\<close> is about the record with keys \<open>k\<close>.
  \<open>recovery_events\<close> is what one turn of the recovery loop appends to the log, and
  \<open>recovered_entity\<close> what it makes of the stored row.
\<close>

fun concerns :: "string \<times> string \<Rightarrow> event \<Rightarrow> bool" where
  "concerns k (MarkStatus u x st) = (k = (u, x))"
| "concerns k (Invoke iv) = (k = (iv_username iv, iv_execution_id iv))"
| "concerns k (ActiveAdd x) = (snd k = x)"
| "concerns k (ActiveRemove x) = (snd k = x)"

definition recovery_events :: "job_executors \<Rightarrow> datetime \<Rightarrow> row \<Rightarrow> event list" where
  "recovery_events exs china_now r =
     (let u = fst (fst r); x = snd (fst r); ent = snd r in
      if stuck china_now ent then [MarkStatus u x ''failed'']
      else
        (case exs (job_id ent) of
           None \<Rightarrow> [MarkStatus u x ''running'', MarkStatus u x ''failed'']
         | Some info \<Rightarrow>
             [MarkStatus u x ''running'',
              Invoke \<lparr>iv_job_type = job_type ent, iv_job_id = job_id ent, iv_username = u,
                iv_config = empty_config, iv_execution_id = x, iv_china_now = china_now\<rparr>] @
             (case fst info (u, empty_config) of
                Returned \<Rightarrow> [MarkStatus u x ''completed'']
              | Raised e \<Rightarrow> if is_exception e then [MarkStatus u x ''failed''] else [])))"

definition recovered_entity ::
  "job_executors \<Rightarrow> (int \<Rightarrow> string) \<Rightarrow> datetime \<Rightarrow> (string \<times> string \<Rightarrow> clock_readings)
     \<Rightarrow> row \<Rightarrow> entity \<Rightarrow> entity" where
  "recovered_entity exs fmt_hours china_now clk r e =
     (let u = fst (fst r); ent = snd r; c = clk (fst r) in
      if stuck china_now ent then
        apply_status (c_end c) ''failed''
          (Some (''Job was running for '' @
                 fmt_hours (dt_micros china_now - dt_micros (the (execution_start_time ent))) @
                 '' hours, likely stuck'')) e
      else
        (case exs (job_id ent) of
           None \<Rightarrow>
             apply_status (c_end c) ''failed''
               (Some (''Executor not found for job '' @ job_id ent))
               (apply_status (c_running c) ''running'' None e)
         | Some info \<Rightarrow>
             (case fst info (u, empty_config) of
                Returned \<Rightarrow>
                  apply_status (c_end c) ''completed'' None
                    (apply_status (c_running c) ''running'' None e)
              | Raised err \<Rightarrow>
                  if is_exception err then
                    apply_status (c_except c) ''failed'' (Some (str_of_error err))
                      (apply_status (c_running c) ''running'' None e)
                  else apply_status (c_running c) ''running'' None e)))"


section \<open>The priority rule in the specification's words\<close>

text \<open>
  The specification's priority: hourly jobs the configured minute, daily jobs
  \<open>hour * 60 + minute\<close>, weekly jobs \<open>day_of_week * 24 + hour\<close>; a minute that is not
  configured counts as 0.  \<open>entry_before\<close> is "ascending priority, and first in first out
  among equal priorities": the counter numbers the entries in the order they were queued.
\<close>

definition field_int :: "cfg_field \<Rightarrow> int \<Rightarrow> int" where
  "field_int f d = (case f of Num n \<Rightarrow> n | _ \<Rightarrow> d)"

definition spec_priority :: "string \<Rightarrow> job_config \<Rightarrow> int" where
  "spec_priority jtype cfg =
     (if jtype = HOURLY then field_int (cfg_minute cfg) 0
      else if jtype = DAILY then field_int (cfg_hour cfg) 0 * 60 + field_int (cfg_minute cfg) 0
      else if jtype = WEEKLY
           then field_int (cfg_day_of_week cfg) 0 * 24 + field_int (cfg_hour cfg) 0
      else 0)"

definition entry_before :: "queue_entry \<Rightarrow> queue_entry \<Rightarrow> bool" where
  "entry_before a b =
     (priority a < priority b \<or> (priority a = priority b \<and> counter a < counter b))"

definition queue_inv :: "string \<Rightarrow> collect_state \<Rightarrow> bool" where
  "queue_inv jtype s =
     (sorted_wrt entry_before (cs_queue s) \<and>
      (\<forall>e \<in> set (cs_queue s). counter e < cs_counter s \<and>
          priority e = spec_priority jtype (q_job_config e)))"

section \<open>The submission loop in the specification's words\<close>


definition flags_ok :: "flags \<Rightarrow> bool" where
  "flags_ok fl = (fl_paused fl \<longrightarrow> fl_shutdown fl)"

section \<open>Example values\<close>

definition t0 :: datetime where
  "t0 = \<lparr>year = 2024, month = 5, day = 6, hour = 2, minute = 0, second = 0, microsecond = 0\<rparr>"

definition e0 :: entity where
  "e0 = \<lparr>job_id = ''auto_challenge'', job_type = ''daily'', scheduled_time = Some t0,
          execution_start_time = None, execution_end_time = None, status = ''pending'',
          error_message = None\<rparr>"

definition h0 :: "string list \<Rightarrow> int" where
  "h0 l = int (length l)"

definition failing_executors :: "string executors" where
  "failing_executors = [''x'' \<mapsto> (\<lambda>_. Raised (OtherError ''boom''), ''X'')]"

definition cfg0 :: job_config where
  "cfg0 = \<lparr>cfg_type = Some ''daily'', cfg_enabled = True, cfg_hour = Num 2, cfg_minute = Num 0,
            cfg_day_of_week = Absent, cfg_account_names = []\<rparr>"

definition alice :: user_settings where
  "alice = \<lparr>user_type = ''player'', job_scheduling_enabled = True,
             job_settings = [(''auto_challenge'', cfg0)]\<rparr>"

definition bob :: user_settings where
  "bob = \<lparr>user_type = ''player'', job_scheduling_enabled = True,
           job_settings = [(''morning_routine'', cfg0\<lparr>cfg_hour := Num 1, cfg_minute := Num 59\<rparr>),
                           (''auto_challenge'', cfg0)]\<rparr>"

definition t1 :: datetime where
  "t1 = t0\<lparr>minute := 1\<rparr>"

definition users1 :: "(string \<times> user_settings) list" where
  "users1 = [(''alice'', alice\<lparr>job_settings :=
                [(''morning_routine'', cfg0\<lparr>cfg_minute := Num 1\<rparr>)]\<rparr>),
             (''bob'', alice)]"

definition cfg_weekly :: job_config where
  "cfg_weekly = \<lparr>cfg_type = Some ''weekly'', cfg_enabled = True, cfg_hour = Num 2,
                  cfg_minute = Num 30, cfg_day_of_week = Num 0, cfg_account_names = []\<rparr>"

definition cfg_hourly :: job_config where
  "cfg_hourly = \<lparr>cfg_type = Some ''hourly'', cfg_enabled = True, cfg_hour = Absent,
                  cfg_minute = Num 0, cfg_day_of_week = Absent, cfg_account_names = []\<rparr>"

definition exs0 :: job_executors where
  "exs0 = [''capture_slave'' \<mapsto> (\<lambda>_. Returned, ''capture''),
           ''auto_challenge'' \<mapsto> (\<lambda>_. Returned, ''challenge''),
           ''morning_routine'' \<mapsto> (\<lambda>_. Raised (OtherError ''login failed''), ''morning'')]"

definition clk0 :: clock_readings where
  "clk0 = \<lparr>c_start = t0, c_running = t0, c_end = t1, c_except = t1\<rparr>"

definition s_hourly :: sched_state where
  "s_hourly = \<lparr>st_table = Some [(''alice'', ''capture_slave_2024-05-06_02:00:00'') \<mapsto>
                    pending_entity ''capture_slave'' ''hourly'' t0],
                st_active_jobs = Some Map.empty, st_tracker = Map.empty, st_events = []\<rparr>"

definition t_early :: datetime where "t_early = t0\<lparr>hour := 1\<rparr>"
definition t_yesterday :: datetime where "t_yesterday = t0\<lparr>day := 5, hour := 23\<rparr>"

definition fmt0 :: "int \<Rightarrow> string" where "fmt0 us = ''2.5''"

definition s_orphan :: sched_state where
  "s_orphan = \<lparr>st_table = Some [(''alice'', ''old_job_2024-05-06_01:00:00'') \<mapsto>
                    pending_entity ''old_job'' ''daily'' t_early],
                st_active_jobs = Some Map.empty, st_tracker = Map.empty, st_events = []\<rparr>"

definition s_stale :: sched_state where
  "s_stale = \<lparr>st_table = Some [(''alice'', ''auto_challenge_2024-05-05_23:00:00'') \<mapsto>
                    pending_entity ''auto_challenge'' ''daily'' t_yesterday],
               st_active_jobs = Some Map.empty, st_tracker = Map.empty, st_events = []\<rparr>"

definition s_missed :: sched_state where
  "s_missed = \<lparr>st_table = Some [(''alice'', ''auto_challenge_2024-05-06_01:00:00'') \<mapsto>
                    pending_entity ''auto_challenge'' ''daily'' t_early],
                st_active_jobs = Some Map.empty, st_tracker = Map.empty, st_events = []\<rparr>"

definition lg0 :: "string \<Rightarrow> outcome" where
  "lg0 username = Returned"

definition lg_fail :: "string \<Rightarrow> outcome" where
  "lg_fail username = Raised (OtherError ''No space left on device'')"

definition exs_exit :: job_executors where
  "exs_exit = [''auto_challenge'' \<mapsto> (\<lambda>_. Raised (SystemExit ''1''), ''challenge'')]"

definition s_daily :: sched_state where
  "s_daily = \<lparr>st_table = Some [(''alice'', ''auto_challenge_2024-05-06_02:00:00'') \<mapsto> e0],
               st_active_jobs = Some Map.empty, st_tracker = Map.empty, st_events = []\<rparr>"

definition s_two :: sched_state where
  "s_two = \<lparr>st_table = Some [(''alice'', ''auto_challenge_2024-05-06_01:00:00'') \<mapsto>
                   pending_entity ''auto_challenge'' ''daily'' t_early,
                 (''bob'', ''morning_routine_2024-05-05_23:00:00'') \<mapsto>
                   (pending_entity ''morning_routine'' ''daily'' t_yesterday)
                     \<lparr>status := ''running'', execution_start_time := Some t_yesterday\<rparr>],
             st_active_jobs = Some Map.empty, st_tracker = Map.empty, st_events = []\<rparr>"

definition rows_two :: "(string \<times> string) list" where
  "rows_two = [(''alice'', ''auto_challenge_2024-05-06_01:00:00''),
               (''bob'', ''morning_routine_2024-05-05_23:00:00'')]"





section \<open>Properties of the record store\<close>

lemma apply_status_fields:
  "job_id (apply_status now s msg e) = job_id e"
  "job_type (apply_status now s msg e) = job_type e"
  "scheduled_time (apply_status now s msg e) = scheduled_time e"
  "status (apply_status now s msg e) = s"
  "execution_start_time (apply_status now s msg e) =
          (if s = ''running'' \<and> execution_start_time e = None then Some now
           else execution_start_time e)"
  "execution_end_time (apply_status now s msg e) =
          (if s = ''completed'' \<or> s = ''failed'' then Some now else execution_end_time e)"
  "error_message (apply_status now s msg e) =
          (if (s = ''completed'' \<or> s = ''failed'') \<and> truthy msg then msg else error_message e)"
  by (simp_all add: apply_status_def Let_def)

text \<open>
  Claim C10.  \<open>update_job_execution_status\<close> on an existing record rewrites that one row
  only, and in it only the status, the start time (when the new status is \<open>running\<close> and no
  start time is set: a start time already there is kept), and the end time and error
  message (when the new status is \<open>completed\<close> or \<open>failed\<close>; the message only when one is
  given).  \<open>job_id\<close>, \<open>job_type\<close>, \<open>scheduled_time\<close> and the keys stay.  When the record
  cannot be fetched the table is returned as it was, and nothing is raised (the result is
  always a table, never an error); an uninitialised table stays uninitialised.
\<close>

theorem update_status_frame:
  "update_job_execution_status None now u x s msg = None \<and>
   (t (u, x) = None \<longrightarrow> update_job_execution_status (Some t) now u x s msg = Some t) \<and>
   (t (u, x) = Some e \<longrightarrow>
      (\<exists>e'. update_job_execution_status (Some t) now u x s msg = Some (t((u, x) \<mapsto> e')) \<and>
        job_id e' = job_id e \<and> job_type e' = job_type e \<and> scheduled_time e' = scheduled_time e \<and>
        status e' = s \<and>
        execution_start_time e' =
          (if s = ''running'' \<and> execution_start_time e = None then Some now
           else execution_start_time e) \<and>
        execution_end_time e' =
          (if s = ''completed'' \<or> s = ''failed'' then Some now else execution_end_time e) \<and>
        error_message e' =
          (if (s = ''completed'' \<or> s = ''failed'') \<and> truthy msg then msg else error_message e)))"
proof (intro conjI impI)
  show "update_job_execution_status None now u x s msg = None"
    by (simp add: update_job_execution_status_def)
  show "update_job_execution_status (Some t) now u x s msg = Some t" if "t (u, x) = None"
    using that by (simp add: update_job_execution_status_def)
  show "\<exists>e'. update_job_execution_status (Some t) now u x s msg = Some (t((u, x) \<mapsto> e')) \<and>
        job_id e' = job_id e \<and> job_type e' = job_type e \<and> scheduled_time e' = scheduled_time e \<and>
        status e' = s \<and>
        execution_start_time e' =
          (if s = ''running'' \<and> execution_start_time e = None then Some now
           else execution_start_time e) \<and>
        execution_end_time e' =
          (if s = ''completed'' \<or> s = ''failed'' then Some now else execution_end_time e) \<and>
        error_message e' =
          (if (s = ''completed'' \<or> s = ''failed'') \<and> truthy msg then msg else error_message e)"
    if h: "t (u, x) = Some e"
  proof (rule exI[of _ "apply_status now s msg e"], intro conjI)
    show "update_job_execution_status (Some t) now u x s msg =
            Some (t((u, x) \<mapsto> apply_status now s msg e))"
      using h by (simp add: update_job_execution_status_def)
  qed (rule apply_status_fields)+
qed

theorem update_status_frame_witness:
  "\<exists>e'. update_job_execution_status (Some [(''u'', ''x'') \<mapsto> e0]) t0 ''u'' ''x'' ''running'' None
           = Some ([(''u'', ''x'') \<mapsto> e0]((''u'', ''x'') \<mapsto> e')) \<and>
        status e' = ''running'' \<and> execution_start_time e' = Some t0 \<and>
        job_id e' = ''auto_challenge''"
proof -
  have h: "[(''u'', ''x'') \<mapsto> e0] (''u'', ''x'') = Some e0" by simp
  have n: "execution_start_time e0 = None" "job_id e0 = ''auto_challenge''"
    by (simp_all add: e0_def)
  from update_status_frame [where t = "[(''u'', ''x'') \<mapsto> e0]" and u = "''u''" and x = "''x''"
      and e = e0 and now = t0 and s = "''running''" and msg = None] h
  obtain e' where
    "update_job_execution_status (Some [(''u'', ''x'') \<mapsto> e0]) t0 ''u'' ''x'' ''running'' None
       = Some ([(''u'', ''x'') \<mapsto> e0]((''u'', ''x'') \<mapsto> e'))"
    "status e' = ''running''"
    "execution_start_time e' =
       (if ''running'' = ''running'' \<and> execution_start_time e0 = None then Some t0
        else execution_start_time e0)"
    "job_id e' = job_id e0"
    by blast
  then show ?thesis using n by auto
qed

section \<open>Properties of the active request registry\<close>

lemma key0: "get_request_key h0 ''alice'' ''hall'' (Several [''b'', ''a'']) = ''alice:hall:2''"
  by (simp add: get_request_key_def h0_def str_int_def)

text \<open>
  Claim C7.  With the registry globals initialised and no entry under the key of
  \<open>(username, request_type, account_names)\<close>: \<open>mark_request_active\<close> returns \<open>True\<close> and
  records the entry; a second call returns \<open>False\<close> and leaves the registry as it is;
  \<open>mark_request_inactive\<close> then removes the entry, after which \<open>mark_request_active\<close>
  returns \<open>True\<close> again; and \<open>mark_request_inactive\<close> without a matching entry leaves the
  registry unchanged.
\<close>

theorem registry_contract:
  assumes k: "k = get_request_key h u ty a" and fresh: "k \<notin> dom r"
    and r1: "r1 = r(k \<mapsto> \<lparr>ri_username = u, ri_request_type = ty, ri_account_names = a,
                           ri_start_time = n1\<rparr>)"
  shows "mark_request_active h n1 (Some r) u ty a = (True, Some r1) \<and>
         mark_request_active h n2 (Some r1) u ty a = (False, Some r1) \<and>
         mark_request_inactive h (Some r1) u ty a = Some r \<and>
         fst (mark_request_active h n3 (mark_request_inactive h (Some r1) u ty a) u ty a) = True \<and>
         mark_request_inactive h (Some r) u ty a = Some r"
  using k fresh r1
  by (simp add: mark_request_active_def mark_request_inactive_def Let_def domIff)

theorem registry_contract_witness:
  "mark_request_active h0 t0 (Some Map.empty) ''alice'' ''hall'' (Several [''b'', ''a'']) =
     (True, Some [''alice:hall:2'' \<mapsto> \<lparr>ri_username = ''alice'', ri_request_type = ''hall'',
        ri_account_names = Several [''b'', ''a''], ri_start_time = t0\<rparr>]) \<and>
   mark_request_active h0 t0 (Some [''alice:hall:2'' \<mapsto> \<lparr>ri_username = ''alice'',
        ri_request_type = ''hall'', ri_account_names = Several [''b'', ''a''],
        ri_start_time = t0\<rparr>]) ''alice'' ''hall'' (Several [''b'', ''a'']) =
     (False, Some [''alice:hall:2'' \<mapsto> \<lparr>ri_username = ''alice'', ri_request_type = ''hall'',
        ri_account_names = Several [''b'', ''a''], ri_start_time = t0\<rparr>])"
  using registry_contract [where r = Map.empty and h = h0 and u = "''alice''" and ty = "''hall''"
      and a = "Several [''b'', ''a'']" and k = "''alice:hall:2''" and ?n1.0 = t0 and ?n2.0 = t0,
      OF key0 [symmetric] _ refl]
  by simp

section \<open>Properties of ExecutorManager\<close>

text \<open>
  Claim C8, as stated: \<open>execute_job\<close> raises if and only if the id is not registered.  It
  fails where a registered callable raises: \<open>execute_job\<close> has no handler around the call,
  so the callable's exception leaves \<open>execute_job\<close> too.
\<close>

theorem execute_job_iff_counterexample:
  "\<not> (isl (execute_job failing_executors ''x'' ''alice'') \<longleftrightarrow> ''x'' \<notin> dom failing_executors)"
  by (simp add: execute_job_def failing_executors_def)

text \<open>
  Claim C8, amended.  \<open>execute_job\<close> raises its own error (the \<open>ValueError\<close> "Executor ... not
  found") when the id is not registered.  When the id is registered it calls the registered
  callable on the given arguments and nothing else: it returns when the callable returns and
  raises what the callable raises.  So it raises if and only if the id is not registered or
  the registered callable raises.
\<close>

theorem execute_job_lookup_and_invoke:
  "(ex i = None \<longrightarrow>
      execute_job ex i args = Inl (ValueError (''Executor '' @ i @ '' not found''))) \<and>
   (\<forall>f n. ex i = Some (f, n) \<longrightarrow>
      execute_job ex i args = (case f args of Returned \<Rightarrow> Inr () | Raised e \<Rightarrow> Inl e)) \<and>
   (isl (execute_job ex i args) \<longleftrightarrow>
      ex i = None \<or> (\<exists>f n e. ex i = Some (f, n) \<and> f args = Raised e))"
  by (cases "ex i") (auto simp add: execute_job_def split: outcome.splits)

theorem execute_job_lookup_and_invoke_witness:
  "execute_job failing_executors ''y'' ''alice'' = Inl (ValueError ''Executor y not found'') \<and>
   execute_job failing_executors ''x'' ''alice'' = Inl (OtherError ''boom'') \<and>
   execute_job (register_executor failing_executors ''z'' (\<lambda>_. Returned) ''Z'') ''z'' ''alice''
     = Inr ()"
proof -
  have a: "failing_executors ''y'' = None"
    by (simp add: failing_executors_def)
  have b: "failing_executors ''x'' = Some (\<lambda>_. Raised (OtherError ''boom''), ''X'')"
    by (simp add: failing_executors_def)
  have c: "register_executor failing_executors ''z'' (\<lambda>_. Returned) ''Z'' ''z''
             = Some (\<lambda>_. Returned, ''Z'')"
    by (simp add: register_executor_def)
  show ?thesis
    using execute_job_lookup_and_invoke [of failing_executors "''y''" "''alice''"] a
      execute_job_lookup_and_invoke [of failing_executors "''x''" "''alice''"] b
      execute_job_lookup_and_invoke
        [of "register_executor failing_executors ''z'' (\<lambda>_. Returned) ''Z''" "''z''" "''alice''"] c
    by simp
qed

section \<open>Properties of run_jobs: due jobs, priorities, order of submission\<close>

lemma get_int_cases:
  "get_int f None = Inr n \<Longrightarrow> f = Num n"
  "get_int f (Some d) = Inr n \<Longrightarrow> field_int f d = n"
  by (auto simp add: get_int_def field_int_def split: cfg_field.splits)

lemma due_check_priority:
  "due_check jtype now cfg = Inr (True, p) \<Longrightarrow> p = spec_priority jtype cfg"
  unfolding due_check_def spec_priority_def
  by (auto split: if_splits sum.splits dest!: get_int_cases simp add: field_int_def DAILY_def HOURLY_def WEEKLY_def)

lemma sorted_wrt_insort_entry:
  assumes "sorted_wrt entry_before q" "\<forall>x \<in> set q. counter x < counter e"
  shows "sorted_wrt entry_before (put e q)"
  using assms
proof (induction q)
  case Nil
  then show ?case by (simp add: put_def)
next
  case (Cons a q)
  then show ?case
    by (auto simp add: put_def queue_key_def entry_before_def set_insort_key less_eq_prod_def less_prod_def not_le)
qed

lemma collect_job_result:
  assumes "collect_job jtype now tr u us jid cfg s = Inr s'"
  shows "cs_queue s' = cs_queue s \<and> cs_counter s' = cs_counter s \<or>
         (\<exists>p x. cfg_type cfg = Some jtype \<and> cfg_enabled cfg \<and>
            due_check jtype now cfg = Inr (True, p) \<and>
            \<not> ((jtype = DAILY \<or> jtype = WEEKLY) \<and> has_job_executed_today tr u jid now) \<and>
            cs_queue s' = put \<lparr>priority = p, counter = cs_counter s, q_username = u,
                 q_user_settings = us, q_job_id = jid, q_job_config = cfg,
                 q_execution_id = x\<rparr> (cs_queue s) \<and>
            cs_counter s' = Suc (cs_counter s))"
  using assms unfolding collect_job_def
  by (auto split: if_splits sum.splits prod.splits)

lemma collect_job_inv:
  assumes inv: "queue_inv jtype s" and run: "collect_job jtype now tr u us jid cfg s = Inr s'"
  shows "queue_inv jtype s'"
proof -
  from collect_job_result [OF run] show ?thesis
  proof (elim disjE exE conjE)
    assume "cs_queue s' = cs_queue s" "cs_counter s' = cs_counter s"
    with inv show ?thesis by (simp add: queue_inv_def)
  next
    fix p x
    assume due: "due_check jtype now cfg = Inr (True, p)"
      and q: "cs_queue s' = put \<lparr>priority = p, counter = cs_counter s, q_username = u,
                 q_user_settings = us, q_job_id = jid, q_job_config = cfg,
                 q_execution_id = x\<rparr> (cs_queue s)"
      and c: "cs_counter s' = Suc (cs_counter s)"
    have p: "p = spec_priority jtype cfg" by (rule due_check_priority [OF due])
    have srt: "sorted_wrt entry_before (cs_queue s')"
      unfolding q using inv by (intro sorted_wrt_insort_entry) (auto simp add: queue_inv_def)
    show ?thesis
      unfolding queue_inv_def using inv srt p
      by (auto simp add: q c put_def set_insort_key queue_inv_def less_Suc_eq)
  qed
qed

lemma collect_user_jobs_inv:
  "queue_inv jtype s \<Longrightarrow> collect_user_jobs jtype now tr u us jobs s = (s', err) \<Longrightarrow> queue_inv jtype s'"
proof (induction jobs arbitrary: s)
  case Nil
  then show ?case by simp
next
  case (Cons j jobs)
  obtain jid cfg where j: "j = (jid, cfg)" by (cases j)
  show ?case
  proof (cases "collect_job jtype now tr u us jid cfg s")
    case (Inl e)
    with Cons.prems j show ?thesis by simp
  next
    case (Inr s1)
    with Cons.prems j have "collect_user_jobs jtype now tr u us jobs s1 = (s', err)" by simp
    moreover have "queue_inv jtype s1" using collect_job_inv [OF Cons.prems(1) Inr] .
    ultimately show ?thesis by (rule Cons.IH [rotated])
  qed
qed

lemma collect_users_inv:
  "queue_inv jtype s \<Longrightarrow> collect_users jtype now tr users s = (s', err) \<Longrightarrow> queue_inv jtype s'"
proof (induction users arbitrary: s)
  case Nil
  then show ?case by simp
next
  case (Cons a users)
  obtain u us where a: "a = (u, us)" by (cases a)
  show ?case
  proof (cases "user_type us = ''admin'' \<or> \<not> job_scheduling_enabled us")
    case True
    with Cons.prems a have "collect_users jtype now tr users s = (s', err)"
      by (auto split: if_splits)
    with Cons.prems(1) show ?thesis by (rule Cons.IH)
  next
    case False
    obtain s1 e1 where r: "collect_user_jobs jtype now tr u us (job_settings us) s = (s1, e1)"
      by (cases "collect_user_jobs jtype now tr u us (job_settings us) s")
    have i1: "queue_inv jtype s1" using collect_user_jobs_inv [OF Cons.prems(1) r] .
    show ?thesis
    proof (cases e1)
      case None
      with Cons.prems a False r have "collect_users jtype now tr users s1 = (s', err)" by auto
      with i1 show ?thesis by (rule Cons.IH)
    next
      case (Some e)
      with Cons.prems a False r have "s' = s1" by auto
      with i1 show ?thesis by simp
    qed
  qed
qed

lemma submit_loop_prefix: "\<exists>n. submit_loop is_set k q = take n q"
proof (induction q arbitrary: k)
  case Nil
  then show ?case by simp
next
  case (Cons e q)
  show ?case
  proof (cases "is_set k")
    case True
    then have "submit_loop is_set k (e # q) = take 0 (e # q)" by simp
    then show ?thesis by blast
  next
    case False
    from Cons.IH [of "Suc k"] obtain n where "submit_loop is_set (Suc k) q = take n q" by blast
    with False have "submit_loop is_set k (e # q) = take (Suc n) (e # q)" by simp
    then show ?thesis by blast
  qed
qed


text \<open>
  Claim C2.  The due test of \<open>run_jobs\<close>, for a job whose settings \<open>int\<close> accepts: an
  hourly job is due exactly when the current minute is the configured minute; a daily job
  exactly when the current hour is the configured hour and the current minute is the
  configured minute or the configured minute plus one; a weekly job exactly when the
  current weekday is the configured day and the current hour the configured hour, whatever
  the configured minute is.  And \<open>run_jobs\<close> queues a job only if it is enabled, of the
  pass's type, and due by that test.
\<close>

theorem due_predicate:
 "(get_int (cfg_minute cfg) (Some 0) = Inr m \<longrightarrow>
     (\<exists>p. due_check HOURLY now cfg = Inr (minute now = m, p))) \<and>
  (get_int (cfg_hour cfg) None = Inr h \<and> get_int (cfg_minute cfg) (Some 0) = Inr m \<longrightarrow>
     (\<exists>p. due_check DAILY now cfg =
        Inr (hour now = h \<and> (minute now = m \<or> minute now = m + 1), p))) \<and>
  (get_int (cfg_day_of_week cfg) None = Inr d \<and> get_int (cfg_hour cfg) None = Inr h \<longrightarrow>
     (\<exists>p. due_check WEEKLY now cfg = Inr (weekday now = d \<and> hour now = h, p))) \<and>
  (collect_job jtype now tr u us jid cfg s = Inr s' \<and> cs_queue s' \<noteq> cs_queue s \<longrightarrow>
     cfg_type cfg = Some jtype \<and> cfg_enabled cfg \<and> (\<exists>p. due_check jtype now cfg = Inr (True, p)))"
proof (intro conjI impI)
  show "\<exists>p. due_check HOURLY now cfg = Inr (minute now = m, p)"
    if "get_int (cfg_minute cfg) (Some 0) = Inr m"
    using that by (simp add: due_check_def HOURLY_def DAILY_def)
  show "\<exists>p. due_check DAILY now cfg =
        Inr (hour now = h \<and> (minute now = m \<or> minute now = m + 1), p)"
    if "get_int (cfg_hour cfg) None = Inr h \<and> get_int (cfg_minute cfg) (Some 0) = Inr m"
    using that by (auto simp add: due_check_def)
  show "\<exists>p. due_check WEEKLY now cfg = Inr (weekday now = d \<and> hour now = h, p)"
    if "get_int (cfg_day_of_week cfg) None = Inr d \<and> get_int (cfg_hour cfg) None = Inr h"
    using that by (auto simp add: due_check_def HOURLY_def DAILY_def WEEKLY_def)
  assume a: "collect_job jtype now tr u us jid cfg s = Inr s' \<and> cs_queue s' \<noteq> cs_queue s"
  with collect_job_result [of jtype now tr u us jid cfg s s']
  show "cfg_type cfg = Some jtype" "cfg_enabled cfg" "\<exists>p. due_check jtype now cfg = Inr (True, p)"
    by auto
qed

theorem due_predicate_witness:
  "(\<exists>p. due_check DAILY t0 cfg0 = Inr (True, p)) \<and>
   (\<exists>p. due_check DAILY t1 cfg0 = Inr (True, p)) \<and>
   (\<exists>p. due_check DAILY (t0\<lparr>minute := 2\<rparr>) cfg0 = Inr (False, p)) \<and>
   (\<exists>p. due_check HOURLY (t0\<lparr>hour := 7\<rparr>) cfg0 = Inr (True, p)) \<and>
   (\<exists>p. due_check WEEKLY t1 cfg_weekly = Inr (True, p))"
proof -
  have g: "get_int (cfg_hour cfg0) None = Inr 2" "get_int (cfg_minute cfg0) (Some 0) = Inr 0"
    "get_int (cfg_hour cfg_weekly) None = Inr 2" "get_int (cfg_day_of_week cfg_weekly) None = Inr 0"
    by (simp_all add: get_int_def cfg0_def cfg_weekly_def)
  have w: "weekday t1 = 0"
    by (simp add: weekday_def toordinal_def days_before_year_def days_before_month_def
        is_leap_def t1_def t0_def)
  have c: "hour t0 = 2" "minute t0 = 0" "hour t1 = 2" "minute t1 = 1"
    by (simp_all add: t0_def t1_def)
  show ?thesis
    using due_predicate [where cfg = cfg0 and now = t0 and h = 2 and m = 0]
      due_predicate [where cfg = cfg0 and now = t1 and h = 2 and m = 0]
      due_predicate [where cfg = cfg0 and now = "t0\<lparr>minute := 2\<rparr>" and h = 2 and m = 0]
      due_predicate [where cfg = cfg0 and now = "t0\<lparr>hour := 7\<rparr>" and m = 0]
      due_predicate [where cfg = cfg_weekly and now = t1 and h = 2 and d = 0]
      g w c
    by simp
qed

text \<open>
  Claim C3.  Every entry that \<open>run_jobs\<close> submits to the pool carries the priority of the
  specification (hourly: the configured minute; daily: \<open>hour * 60 + minute\<close>; weekly:
  \<open>day_of_week * 24 + hour\<close>), and the entries are submitted in ascending priority, those
  of equal priority in the order in which they were queued.  A daily job at hour 2,
  minute 0 gets priority 120.
\<close>

theorem submission_order:
  assumes run: "submitted = fst (snd (run_jobs_submissions shutdown_at_entry paused is_set jtype now tr tbl users))"
  shows "sorted_wrt entry_before submitted \<and>
         (\<forall>e \<in> set submitted. priority e = spec_priority jtype (q_job_config e)) \<and>
         spec_priority DAILY cfg0 = 120 \<and> due_check DAILY t0 cfg0 = Inr (True, 120)"
proof -
  let ?init = "\<lparr>cs_table = tbl, cs_queue = [], cs_counter = 0\<rparr>"
  obtain s err where c: "collect_users jtype now tr users ?init = (s, err)"
    by (cases "collect_users jtype now tr users ?init")
  have "queue_inv jtype ?init" by (simp add: queue_inv_def)
  then have inv: "queue_inv jtype s" using c by (rule collect_users_inv)
  obtain n where n: "submit_loop is_set 0 (cs_queue s) = take n (cs_queue s)"
    using submit_loop_prefix by blast
  have sub: "submitted = [] \<or> submitted = take n (cs_queue s)"
    using run c n by (auto simp add: run_jobs_submissions_def split: option.splits)
  have "sorted_wrt entry_before (take n (cs_queue s))"
    using inv by (simp add: queue_inv_def sorted_wrt_take)
  moreover have "\<forall>e \<in> set (take n (cs_queue s)). priority e = spec_priority jtype (q_job_config e)"
    using inv by (auto simp add: queue_inv_def dest: in_set_takeD)
  moreover have "spec_priority DAILY cfg0 = 120"
    by (simp add: spec_priority_def cfg0_def field_int_def DAILY_def HOURLY_def)
  moreover have "due_check DAILY t0 cfg0 = Inr (True, 120)"
    by (simp add: due_check_def cfg0_def t0_def get_int_def)
  ultimately show ?thesis using sub by auto
qed

lemma run1: "map (\<lambda>e. (q_username e, q_job_id e, priority e, counter e))
     (fst (snd (run_jobs_submissions False False (\<lambda>_. False) DAILY t1 Map.empty None users1)))
    = [(''bob'', ''auto_challenge'', 120, 1), (''alice'', ''morning_routine'', 121, 0)]"
  by code_simp

theorem submission_order_witness:
  "sorted_wrt entry_before
     (fst (snd (run_jobs_submissions False False (\<lambda>_. False) DAILY t1 Map.empty None users1))) \<and>
   map (\<lambda>e. (q_username e, q_job_id e, priority e, counter e))
     (fst (snd (run_jobs_submissions False False (\<lambda>_. False) DAILY t1 Map.empty None users1)))
    = [(''bob'', ''auto_challenge'', 120, 1), (''alice'', ''morning_routine'', 121, 0)]"
  using submission_order [OF refl, of False False "\<lambda>_. False" DAILY t1 Map.empty None users1] run1
  by blast

section \<open>Properties of execution ids\<close>

lemma digit_inj:
  "a < 10 \<Longrightarrow> b < 10 \<Longrightarrow> ''0123456789'' ! a = ''0123456789'' ! b \<Longrightarrow> a = b"
proof -
  assume a: "a < 10" and b: "b < 10" and eq: "''0123456789'' ! a = ''0123456789'' ! b"
  have d: "distinct ''0123456789''" by simp
  have "a < length ''0123456789''" "b < length ''0123456789''" using a b by simp_all
  with d eq show "a = b" by (simp only: nth_eq_iff_index_eq)
qed

lemma str_nat_one: "n < 10 \<Longrightarrow> str_nat n = [''0123456789'' ! n]"
  by (subst str_nat.simps) simp

lemma str_nat_two:
  "10 \<le> n \<Longrightarrow> n < 100 \<Longrightarrow> str_nat n = [''0123456789'' ! (n div 10), ''0123456789'' ! (n mod 10)]"
  by (subst str_nat.simps) (simp add: str_nat_one)

lemma length_str_nat_le:
  "n < 10 ^ k \<Longrightarrow> 0 < k \<Longrightarrow> length (str_nat n) \<le> k"
proof (induction k arbitrary: n)
  case 0
  then show ?case by simp
next
  case (Suc k)
  show ?case
  proof (cases "n < 10")
    case True
    then show ?thesis by (simp add: str_nat_one)
  next
    case False
    then have k: "0 < k" using Suc.prems(1) by (cases k) auto
    have "n div 10 < 10 ^ k" using Suc.prems(1) by (simp add: less_mult_imp_div_less mult.commute)
    from Suc.IH [OF this k] False show ?thesis by (subst str_nat.simps) simp
  qed
qed

lemma zero_pad_two:
  assumes "0 \<le> i" "i < 100"
  shows "zero_pad 2 i = [''0123456789'' ! (nat i div 10), ''0123456789'' ! (nat i mod 10)]"
proof (cases "nat i < 10")
  case True
  with assms show ?thesis
    by (simp add: zero_pad_def str_int_def str_nat_one Let_def)
next
  case False
  with assms have "10 \<le> nat i" "nat i < 100" by simp_all
  from str_nat_two [OF this] assms show ?thesis
    by (simp add: zero_pad_def str_int_def Let_def)
qed

lemma zero_pad_two_inj:
  assumes "0 \<le> i" "i < 100" "0 \<le> j" "j < 100" "zero_pad 2 i = zero_pad 2 j"
  shows "i = j"
proof -
  have lt: "nat i div 10 < 10" "nat j div 10 < 10" "nat i mod 10 < 10" "nat j mod 10 < 10"
    using assms by simp_all
  from assms have "''0123456789'' ! (nat i div 10) = ''0123456789'' ! (nat j div 10)"
    "''0123456789'' ! (nat i mod 10) = ''0123456789'' ! (nat j mod 10)"
    by (simp_all only: zero_pad_two list.inject)
  then have "nat i div 10 = nat j div 10" "nat i mod 10 = nat j mod 10"
    using lt by (blast intro: digit_inj)+
  then have "nat i = nat j" by (metis div_mult_mod_eq)
  with assms show ?thesis by simp
qed

lemma length_zero_pad_two: "0 \<le> i \<Longrightarrow> i < 100 \<Longrightarrow> length (zero_pad 2 i) = 2"
  by (simp add: zero_pad_two)

lemma length_zero_pad_four:
  assumes "0 \<le> i" "i < 10000"
  shows "length (zero_pad 4 i) = 4"
proof -
  have "nat i < 10 ^ 4" using assms by simp
  then have "length (str_nat (nat i)) \<le> 4" by (rule length_str_nat_le) simp
  with assms show ?thesis by (simp add: zero_pad_def str_int_def Let_def)
qed

lemma length_strftime_time: "valid_time t \<Longrightarrow> length (strftime_time t) = 8"
  by (simp add: strftime_time_def valid_time_def length_zero_pad_two)

lemma days_in_month_le: "1 \<le> m \<Longrightarrow> m \<le> 12 \<Longrightarrow> days_in_month y m \<le> 31"
proof -
  assume "1 \<le> m" "m \<le> 12"
  then have "m = 1 \<or> m = 2 \<or> m = 3 \<or> m = 4 \<or> m = 5 \<or> m = 6 \<or> m = 7 \<or> m = 8 \<or> m = 9 \<or>
             m = 10 \<or> m = 11 \<or> m = 12" by arith
  then show ?thesis by (auto simp add: days_in_month_def)
qed

lemma length_strftime_date: "valid_date t \<Longrightarrow> length (strftime_date t) = 10"
  using days_in_month_le [of "month t" "year t"]
  by (simp add: strftime_date_def valid_date_def length_zero_pad_two length_zero_pad_four)

lemma execution_id_hour:
  assumes "valid_time a" "valid_time b" "generate_execution_id jid a = generate_execution_id jid b"
  shows "hour a = hour b"
proof -
  let ?ra = "'':'' @ zero_pad 2 (minute a) @ '':'' @ zero_pad 2 (second a)"
  let ?rb = "'':'' @ zero_pad 2 (minute b) @ '':'' @ zero_pad 2 (second b)"
  have "(''_'' @ strftime_date a @ ''_'') @ strftime_time a =
        (''_'' @ strftime_date b @ ''_'') @ strftime_time b"
    using assms(3) by (simp add: generate_execution_id_def)
  moreover have "length (strftime_time a) = length (strftime_time b)"
    using assms by (simp add: length_strftime_time)
  ultimately have "strftime_time a = strftime_time b"
    by (metis append_eq_append_conv)
  then have "zero_pad 2 (hour a) @ ?ra = zero_pad 2 (hour b) @ ?rb"
    by (simp add: strftime_time_def)
  moreover have "length (zero_pad 2 (hour a)) = length (zero_pad 2 (hour b))"
    using assms by (simp add: valid_time_def length_zero_pad_two)
  ultimately have "zero_pad 2 (hour a) = zero_pad 2 (hour b)"
    by (metis append_eq_append_conv)
  then show ?thesis using assms(1,2) by (intro zero_pad_two_inj) (simp_all add: valid_time_def)
qed

lemma execution_id_job:
  assumes "valid_time a" "valid_date a" "valid_time b" "valid_date b"
    "generate_execution_id jid a = generate_execution_id jid' b"
  shows "jid = jid'"
proof -
  have "length (''_'' @ strftime_date a @ ''_'' @ strftime_time a) =
        length (''_'' @ strftime_date b @ ''_'' @ strftime_time b)"
    using assms by (simp add: length_strftime_time length_strftime_date)
  moreover have "jid @ (''_'' @ strftime_date a @ ''_'' @ strftime_time a) =
        jid' @ (''_'' @ strftime_date b @ ''_'' @ strftime_time b)"
    using assms(5) by (simp add: generate_execution_id_def)
  ultimately show ?thesis by (metis append_eq_append_conv)
qed

section \<open>Properties of the worker\<close>

lemma do_update_simps:
  "st_table s = Some t \<Longrightarrow> t (u, x) = Some e \<Longrightarrow>
     st_table (do_update s now u x st msg) = Some (t((u, x) \<mapsto> apply_status now st msg e))"
  "st_active_jobs (do_update s now u x st msg) = st_active_jobs s"
  "st_tracker (do_update s now u x st msg) = st_tracker s"
  "st_events (do_update s now u x st msg) = st_events s @ [MarkStatus u x st]"
  by (simp_all add: do_update_def update_job_execution_status_def)

lemma active_add_simps:
  "st_active_jobs s = Some aj \<Longrightarrow> st_active_jobs (active_add s x a) = Some (aj(x \<mapsto> a))"
  "st_active_jobs s = Some aj \<Longrightarrow> st_events (active_add s x a) = st_events s @ [ActiveAdd x]"
  "st_table (active_add s x a) = st_table s"
  "st_tracker (active_add s x a) = st_tracker s"
  by (simp_all add: active_add_def split: option.splits)

lemma active_pop_simps:
  "st_active_jobs s = Some aj \<Longrightarrow> st_active_jobs (active_pop s x) = Some (aj(x := None))"
  "st_active_jobs s = Some aj \<Longrightarrow> st_events (active_pop s x) = st_events s @ [ActiveRemove x]"
  "st_table (active_pop s x) = st_table s"
  "st_tracker (active_pop s x) = st_tracker s"
  by (simp_all add: active_pop_def split: option.splits)

lemma get_or_create_record_id:
  "snd (get_or_create_record tbl u jid jtype t) = generate_execution_id jid t"
  by (simp add: get_or_create_record_def create_job_execution_record_def Let_def
      split: option.splits)

lemma collect_job_entry:
  assumes "collect_job jtype now tr u us jid cfg s = Inr s'"
  shows "cs_queue s' = cs_queue s \<or>
         (\<exists>p t. cfg_type cfg = Some jtype \<and> cfg_enabled cfg \<and>
            due_check jtype now cfg = Inr (True, p) \<and>
            \<not> ((jtype = DAILY \<or> jtype = WEEKLY) \<and> has_job_executed_today tr u jid now) \<and>
            scheduled_time_of jtype now cfg = Inr t \<and>
            cs_queue s' = put \<lparr>priority = p, counter = cs_counter s, q_username = u,
                 q_user_settings = us, q_job_id = jid, q_job_config = cfg,
                 q_execution_id = generate_execution_id jid t\<rparr> (cs_queue s))"
proof (cases "cs_queue s' = cs_queue s")
  case True
  then show ?thesis by simp
next
  case False
  with assms obtain p t where a: "cfg_type cfg = Some jtype" "cfg_enabled cfg"
    "due_check jtype now cfg = Inr (True, p)"
    "\<not> ((jtype = DAILY \<or> jtype = WEEKLY) \<and> has_job_executed_today tr u jid now)"
    "scheduled_time_of jtype now cfg = Inr t"
    unfolding collect_job_def by (auto split: if_splits sum.splits prod.splits)
  obtain tbl' x where g: "get_or_create_record (cs_table s) u jid jtype t = (tbl', x)"
    by (cases "get_or_create_record (cs_table s) u jid jtype t")
  with get_or_create_record_id [of "cs_table s" u jid jtype t]
  have x: "x = generate_execution_id jid t" by simp
  from assms a g False have "cs_queue s' = put \<lparr>priority = p, counter = cs_counter s,
      q_username = u, q_user_settings = us, q_job_id = jid, q_job_config = cfg,
      q_execution_id = x\<rparr> (cs_queue s)"
    unfolding collect_job_def by (auto split: if_splits)
  with a x show ?thesis by blast
qed

lemma collect_user_jobs_queue:
  assumes step: "\<And>u us jid cfg s s'. collect_job jtype now tr u us jid cfg s = Inr s' \<Longrightarrow>
                   (\<forall>e \<in> set (cs_queue s). P e) \<Longrightarrow> (\<forall>e \<in> set (cs_queue s'). P e)"
  shows "(\<forall>e \<in> set (cs_queue s). P e) \<Longrightarrow>
           collect_user_jobs jtype now tr u us jobs s = (s', err) \<Longrightarrow>
           (\<forall>e \<in> set (cs_queue s'). P e)"
proof (induction jobs arbitrary: s)
  case Nil
  then show ?case by simp
next
  case (Cons j jobs)
  obtain jid cfg where j: "j = (jid, cfg)" by (cases j)
  show ?case
  proof (cases "collect_job jtype now tr u us jid cfg s")
    case (Inl e)
    with Cons.prems j show ?thesis by simp
  next
    case (Inr s1)
    with Cons.prems j have "collect_user_jobs jtype now tr u us jobs s1 = (s', err)" by simp
    moreover have "\<forall>e \<in> set (cs_queue s1). P e" using step [OF Inr Cons.prems(1)] .
    ultimately show ?thesis by (rule Cons.IH [rotated])
  qed
qed

lemma collect_users_queue:
  assumes step: "\<And>u us jid cfg s s'. collect_job jtype now tr u us jid cfg s = Inr s' \<Longrightarrow>
                   (\<forall>e \<in> set (cs_queue s). P e) \<Longrightarrow> (\<forall>e \<in> set (cs_queue s'). P e)"
  shows "(\<forall>e \<in> set (cs_queue s). P e) \<Longrightarrow> collect_users jtype now tr users s = (s', err) \<Longrightarrow>
           (\<forall>e \<in> set (cs_queue s'). P e)"
proof (induction users arbitrary: s)
  case Nil
  then show ?case by simp
next
  case (Cons a users)
  obtain u us where a: "a = (u, us)" by (cases a)
  show ?case
  proof (cases "user_type us = ''admin'' \<or> \<not> job_scheduling_enabled us")
    case True
    with Cons.prems a have "collect_users jtype now tr users s = (s', err)"
      by (auto split: if_splits)
    with Cons.prems(1) show ?thesis by (rule Cons.IH)
  next
    case False
    obtain s1 e1 where r: "collect_user_jobs jtype now tr u us (job_settings us) s = (s1, e1)"
      by (cases "collect_user_jobs jtype now tr u us (job_settings us) s")
    have i1: "\<forall>e \<in> set (cs_queue s1). P e"
    proof (rule collect_user_jobs_queue [where P = P, OF _ Cons.prems(1) r])
      fix u' us' jid cfg a b
      assume "collect_job jtype now tr u' us' jid cfg a = Inr b" "\<forall>e \<in> set (cs_queue a). P e"
      then show "\<forall>e \<in> set (cs_queue b). P e" by (rule step)
    qed
    show ?thesis
    proof (cases e1)
      case None
      with Cons.prems a False r have "collect_users jtype now tr users s1 = (s', err)" by auto
      with i1 show ?thesis by (rule Cons.IH)
    next
      case (Some e)
      with Cons.prems a False r have "s' = s1" by auto
      with i1 show ?thesis by simp
    qed
  qed
qed

lemma submitted_entries:
  assumes step: "\<And>u us jid cfg s s'. collect_job jtype now tr u us jid cfg s = Inr s' \<Longrightarrow>
                   (\<forall>e \<in> set (cs_queue s). P e) \<Longrightarrow> (\<forall>e \<in> set (cs_queue s'). P e)"
    and run: "run_jobs_submissions sh pa is_set jtype now tr tbl users = (tbl', sub, err)"
  shows "\<forall>e \<in> set sub. P e"
proof (cases "sh \<or> pa")
  case True
  with run show ?thesis by (auto simp add: run_jobs_submissions_def split: if_splits)
next
  case False
  obtain s1 e1 where c: "collect_users jtype now tr users
      \<lparr>cs_table = tbl, cs_queue = [], cs_counter = 0\<rparr> = (s1, e1)"
    by (cases "collect_users jtype now tr users \<lparr>cs_table = tbl, cs_queue = [], cs_counter = 0\<rparr>")
  have q: "\<forall>e \<in> set (cs_queue s1). P e"
  proof (rule collect_users_queue [where P = P, OF _ _ c])
    fix u' us' jid cfg a b
    assume "collect_job jtype now tr u' us' jid cfg a = Inr b" "\<forall>e \<in> set (cs_queue a). P e"
    then show "\<forall>e \<in> set (cs_queue b). P e" by (rule step)
  next
    show "\<forall>e \<in> set (cs_queue \<lparr>cs_table = tbl, cs_queue = [], cs_counter = 0\<rparr>). P e" by simp
  qed
  show ?thesis
  proof (cases e1)
    case None
    with run False c have "sub = submit_loop is_set 0 (cs_queue s1)"
      by (simp add: run_jobs_submissions_def)
    with submit_loop_prefix [of is_set 0 "cs_queue s1"] obtain n where "sub = take n (cs_queue s1)"
      by auto
    with q show ?thesis by (auto dest: in_set_takeD)
  next
    case (Some e)
    with run False c show ?thesis by (simp add: run_jobs_submissions_def)
  qed
qed

lemma plus_one_day_ok: "year t < 9999 \<Longrightarrow> \<exists>d. plus_one_day t = Inr d \<and> hour d = hour t"
  by (simp add: plus_one_day_def)

lemma hourly_next_differs:
  assumes v: "valid_time now" and y: "year now < 9999"
    and st: "scheduled_time_of HOURLY now cfg = Inr t"
  shows "\<exists>nt. next_hourly_time now cfg = Inr nt \<and>
           generate_execution_id jid nt \<noteq> generate_execution_id jid t"
proof -
  from st obtain m where m: "get_int (cfg_minute cfg) (Some 0) = Inr m"
    and t: "dt_replace (now\<lparr>second := 0, microsecond := 0\<rparr>) None (Some m) None None = Inr t"
    using v
    by (auto simp add: scheduled_time_of_def dt_replace_def valid_time_def Let_def HOURLY_def
        DAILY_def WEEKLY_def split: sum.splits if_splits)
  from t v have mr: "0 \<le> m" "m \<le> 59" and tt: "t = now\<lparr>second := 0, microsecond := 0, minute := m\<rparr>"
    by (auto simp add: dt_replace_def Let_def valid_time_def split: if_splits)
  have vt: "valid_time t" "hour t = hour now" using tt v mr by (simp_all add: valid_time_def)
  show ?thesis
  proof (cases "hour now + 1 \<ge> 24")
    case True
    from plus_one_day_ok [OF y] obtain d where d: "plus_one_day now = Inr d" by blast
    let ?nt = "d\<lparr>hour := 0, minute := m, second := 0, microsecond := 0\<rparr>"
    have n: "next_hourly_time now cfg = Inr ?nt"
      using True m d mr by (simp add: next_hourly_time_def Let_def dt_replace_def)
    have "valid_time ?nt" using mr by (simp add: valid_time_def)
    moreover have "hour ?nt \<noteq> hour t" using True vt(2) by simp
    ultimately have "generate_execution_id jid ?nt \<noteq> generate_execution_id jid t"
      using execution_id_hour [of ?nt t jid] vt(1) by blast
    with n show ?thesis by blast
  next
    case False
    let ?nt = "now\<lparr>hour := hour now + 1, minute := m, second := 0, microsecond := 0\<rparr>"
    have n: "next_hourly_time now cfg = Inr ?nt"
      using False m mr v by (simp add: next_hourly_time_def Let_def dt_replace_def valid_time_def)
    have "valid_time ?nt" using mr v False by (simp add: valid_time_def)
    moreover have "hour ?nt \<noteq> hour t" using vt(2) by simp
    ultimately have "generate_execution_id jid ?nt \<noteq> generate_execution_id jid t"
      using execution_id_hour [of ?nt t jid] vt(1) by blast
    with n show ?thesis by blast
  qed
qed

lemma submitted_hourly_next:
  assumes run: "run_jobs_submissions sh pa is_set HOURLY now tr tbl users = (tbl', sub, err)"
    and v: "valid_time now" and y: "year now < 9999"
  shows "\<forall>e \<in> set sub. \<exists>nt. next_hourly_time now (q_job_config e) = Inr nt \<and>
           generate_execution_id (q_job_id e) nt \<noteq> q_execution_id e"
proof (rule submitted_entries [OF _ run])
  fix u us jid cfg s s'
  assume c: "collect_job HOURLY now tr u us jid cfg s = Inr s'"
    and old: "\<forall>e \<in> set (cs_queue s). \<exists>nt. next_hourly_time now (q_job_config e) = Inr nt \<and>
           generate_execution_id (q_job_id e) nt \<noteq> q_execution_id e"
  from collect_job_entry [OF c]
  show "\<forall>e \<in> set (cs_queue s'). \<exists>nt. next_hourly_time now (q_job_config e) = Inr nt \<and>
           generate_execution_id (q_job_id e) nt \<noteq> q_execution_id e"
  proof (elim disjE exE conjE)
    assume "cs_queue s' = cs_queue s"
    with old show ?thesis by simp
  next
    fix p t
    assume st: "scheduled_time_of HOURLY now cfg = Inr t"
      and q: "cs_queue s' = put \<lparr>priority = p, counter = cs_counter s, q_username = u,
                 q_user_settings = us, q_job_id = jid, q_job_config = cfg,
                 q_execution_id = generate_execution_id jid t\<rparr> (cs_queue s)"
    from hourly_next_differs [OF v y st, of jid] old show ?thesis
      by (auto simp add: q put_def set_insort_key)
  qed
qed

text \<open>
  Claim C6, as stated: every run of the worker invokes the registered executor, marks the
  record failed with the exception text when the executor raises, and lets no exception
  out.  It fails in two ways.  An executor that raises \<open>SystemExit\<close> passes the clause
  \<open>except Exception\<close>: the record stays running and the exception leaves the worker, after
  the \<open>finally\<close> clause has removed the entry of \<open>active_jobs\<close>.  And when
  \<open>get_user_logger\<close> raises, the record is marked failed and the executor, though
  registered, is not invoked.
\<close>

theorem worker_lifecycle_counterexample:
  "snd (execute_single_job exs_exit lg0 clk0 ''alice'' ''auto_challenge'' cfg0 DAILY t0
          ''auto_challenge_2024-05-06_02:00:00'' s_daily) = Some (SystemExit ''1'') \<and>
   map_option status (the (st_table (fst (execute_single_job exs_exit lg0 clk0 ''alice''
          ''auto_challenge'' cfg0 DAILY t0 ''auto_challenge_2024-05-06_02:00:00'' s_daily)))
        (''alice'', ''auto_challenge_2024-05-06_02:00:00'')) = Some ''running'' \<and>
   st_events (fst (execute_single_job exs_exit lg0 clk0 ''alice'' ''auto_challenge'' cfg0 DAILY t0
          ''auto_challenge_2024-05-06_02:00:00'' s_daily)) =
     [MarkStatus ''alice'' ''auto_challenge_2024-05-06_02:00:00'' ''running'',
      ActiveAdd ''auto_challenge_2024-05-06_02:00:00'',
      Invoke \<lparr>iv_job_type = DAILY, iv_job_id = ''auto_challenge'', iv_username = ''alice'',
        iv_config = cfg0, iv_execution_id = ''auto_challenge_2024-05-06_02:00:00'',
        iv_china_now = t0\<rparr>,
      ActiveRemove ''auto_challenge_2024-05-06_02:00:00''] \<and>
   exs0 ''auto_challenge'' \<noteq> None \<and>
   st_events (fst (execute_single_job exs0 lg_fail clk0 ''alice'' ''auto_challenge'' cfg0 DAILY t0
          ''auto_challenge_2024-05-06_02:00:00'' s_daily)) =
     [MarkStatus ''alice'' ''auto_challenge_2024-05-06_02:00:00'' ''running'',
      ActiveAdd ''auto_challenge_2024-05-06_02:00:00'',
      MarkStatus ''alice'' ''auto_challenge_2024-05-06_02:00:00'' ''failed'',
      ActiveRemove ''auto_challenge_2024-05-06_02:00:00'']"
  by code_simp

text \<open>
  Claim C6, amended.  One run of \<open>_execute_single_job\<close> on an existing record, with the
  globals set.  The worker marks the record running and adds the entry to \<open>active_jobs\<close>:
  at the end of the \<open>try\<close> block the dictionary holds the entry under the execution id.
  If \<open>get_user_logger\<close> returns and an executor is registered, the worker calls the
  executor on \<open>(username, job_config)\<close> and marks the record completed when the call
  returns; with no executor registered it marks the record failed without calling
  anything.  When the executor or \<open>get_user_logger\<close> raises \<open>e\<close> and \<open>e\<close> is an
  \<open>Exception\<close>, the record is marked failed with \<open>str(e)\<close> (an empty text leaves the stored
  message as it was) and nothing leaves the worker; when \<open>e\<close> is no \<open>Exception\<close>, the
  record stays running and \<open>e\<close> leaves the worker.  In every case the entry of
  \<open>active_jobs\<close> is removed at the end.  For an hourly job the worker also writes the record
  of the next hour; the statement is for executions whose next record has another id than
  the one being run, which \<open>submitted_hourly_next\<close> shows for every entry that \<open>run_jobs\<close>
  submits.
\<close>

theorem worker_lifecycle:
  assumes tbl: "st_table s = Some t" and rec: "t (u, x) = Some e"
    and act: "st_active_jobs s = Some aj"
    and nxt: "jtype = HOURLY \<longrightarrow>
                (\<exists>nt. next_hourly_time now cfg = Inr nt \<and> generate_execution_id jid nt \<noteq> x)"
    and body: "(s1, r1) = job_body exs lg clk u jid cfg jtype now x s"
    and run: "(s', r') = execute_single_job exs lg clk u jid cfg jtype now x s"
  shows "st_active_jobs s1 =
       Some (aj(x \<mapsto> \<lparr>aj_username = u, aj_job_id = jid, aj_start_time = c_start clk\<rparr>)) \<and>
     st_active_jobs s' = Some (aj(x := None)) \<and>
     (\<exists>t' e'. st_table s' = Some t' \<and> t' (u, x) = Some e' \<and>
        execution_start_time e' =
          (if execution_start_time e = None then Some (c_running clk)
           else execution_start_time e) \<and>
        (case lg u of
           Raised err \<Rightarrow>
             (if is_exception err then
                r' = None \<and> status e' = ''failed'' \<and>
                error_message e' =
                  (if str_of_error err = [] then error_message e else Some (str_of_error err)) \<and>
                st_events s' = st_events s @
                  [MarkStatus u x ''running'', ActiveAdd x, MarkStatus u x ''failed'',
                   ActiveRemove x]
              else
                r' = Some err \<and> status e' = ''running'' \<and>
                st_events s' = st_events s @
                  [MarkStatus u x ''running'', ActiveAdd x, ActiveRemove x])
         | Returned \<Rightarrow>
             (case exs jid of
                None \<Rightarrow>
                  r' = None \<and> status e' = ''failed'' \<and>
                  error_message e' = Some (''Executor not found for job '' @ jid) \<and>
                  st_events s' = st_events s @
                    [MarkStatus u x ''running'', ActiveAdd x, MarkStatus u x ''failed'',
                     ActiveRemove x]
              | Some info \<Rightarrow>
                  (case fst info (u, cfg) of
                     Returned \<Rightarrow>
                       r' = None \<and> status e' = ''completed'' \<and>
                       error_message e' = error_message e \<and>
                       st_events s' = st_events s @
                         [MarkStatus u x ''running'', ActiveAdd x,
                          Invoke \<lparr>iv_job_type = jtype, iv_job_id = jid, iv_username = u,
                            iv_config = cfg, iv_execution_id = x, iv_china_now = now\<rparr>,
                          MarkStatus u x ''completed'', ActiveRemove x]
                   | Raised err \<Rightarrow>
                       (if is_exception err then
                          r' = None \<and> status e' = ''failed'' \<and>
                          error_message e' =
                            (if str_of_error err = [] then error_message e
                             else Some (str_of_error err)) \<and>
                          st_events s' = st_events s @
                            [MarkStatus u x ''running'', ActiveAdd x,
                             Invoke \<lparr>iv_job_type = jtype, iv_job_id = jid, iv_username = u,
                               iv_config = cfg, iv_execution_id = x, iv_china_now = now\<rparr>,
                             MarkStatus u x ''failed'', ActiveRemove x]
                        else
                          r' = Some err \<and> status e' = ''running'' \<and>
                          st_events s' = st_events s @
                            [MarkStatus u x ''running'', ActiveAdd x,
                             Invoke \<lparr>iv_job_type = jtype, iv_job_id = jid, iv_username = u,
                               iv_config = cfg, iv_execution_id = x, iv_china_now = now\<rparr>,
                             ActiveRemove x])))))"
proof -
  have s1: "s1 = fst (job_body exs lg clk u jid cfg jtype now x s)"
    and s': "s' = fst (execute_single_job exs lg clk u jid cfg jtype now x s)"
    and r': "r' = snd (execute_single_job exs lg clk u jid cfg jtype now x s)"
    using body run by (metis fst_conv, metis fst_conv, metis snd_conv)
  note defs = execute_single_job_def job_body_def Let_def do_update_simps active_add_simps
    active_pop_simps apply_status_fields truthy_def
  show ?thesis
  proof (cases "lg u")
    case (Raised err)
    then show ?thesis
      using tbl rec act unfolding s1 s' r'
      by (cases "is_exception err") (simp_all add: defs)
  next
    case Returned
    show ?thesis
    proof (cases "exs jid")
      case None
      with Returned show ?thesis
        using tbl rec act unfolding s1 s' r' by (simp add: defs)
    next
      case (Some info)
      show ?thesis
      proof (cases "fst info (u, cfg)")
        case R: Returned
        show ?thesis
        proof (cases "jtype = HOURLY")
          case True
          with nxt obtain nt where nt: "next_hourly_time now cfg = Inr nt"
            "generate_execution_id jid nt \<noteq> x" by blast
          with Some Returned R True show ?thesis
            using tbl rec act unfolding s1 s' r'
            by (simp add: defs create_job_execution_record_def HOURLY_def DAILY_def WEEKLY_def)
        next
          case False
          with Some Returned R show ?thesis
            using tbl rec act unfolding s1 s' r' by (simp add: defs)
        qed
      next
        case (Raised err)
        with Some Returned show ?thesis
          using tbl rec act unfolding s1 s' r'
          by (cases "is_exception err") (simp_all add: defs)
      qed
    qed
  qed
qed

lemma next_hourly_t0: "next_hourly_time t0 cfg_hourly = Inr (t0\<lparr>hour := 3\<rparr>)"
  by (simp add: next_hourly_time_def cfg_hourly_def get_int_def t0_def dt_replace_def Let_def)

lemma next_id_t0:
  "generate_execution_id ''capture_slave'' (t0\<lparr>hour := 3\<rparr>) \<noteq> ''capture_slave_2024-05-06_02:00:00''"
  by (simp add: generate_execution_id_def strftime_date_def strftime_time_def zero_pad_def
      str_int_def t0_def)

theorem worker_lifecycle_witness:
  "map_option aj_job_id
     (the (st_active_jobs (fst (job_body exs0 lg0 clk0 ''alice'' ''capture_slave'' cfg_hourly HOURLY
              t0 ''capture_slave_2024-05-06_02:00:00'' s_hourly)))
        ''capture_slave_2024-05-06_02:00:00'') = Some ''capture_slave'' \<and>
   st_active_jobs (fst (execute_single_job exs0 lg0 clk0 ''alice'' ''capture_slave'' cfg_hourly
              HOURLY t0 ''capture_slave_2024-05-06_02:00:00'' s_hourly)) = Some Map.empty \<and>
   snd (execute_single_job exs0 lg0 clk0 ''alice'' ''capture_slave'' cfg_hourly
              HOURLY t0 ''capture_slave_2024-05-06_02:00:00'' s_hourly) = None \<and>
   (\<exists>t' e'. st_table (fst (execute_single_job exs0 lg0 clk0 ''alice'' ''capture_slave'' cfg_hourly
              HOURLY t0 ''capture_slave_2024-05-06_02:00:00'' s_hourly)) = Some t' \<and>
     t' (''alice'', ''capture_slave_2024-05-06_02:00:00'') = Some e' \<and>
     status e' = ''completed'' \<and> execution_start_time e' = Some t0) \<and>
   st_events (fst (execute_single_job exs0 lg0 clk0 ''alice'' ''capture_slave'' cfg_hourly HOURLY t0
              ''capture_slave_2024-05-06_02:00:00'' s_hourly)) =
       [MarkStatus ''alice'' ''capture_slave_2024-05-06_02:00:00'' ''running'',
        ActiveAdd ''capture_slave_2024-05-06_02:00:00'',
        Invoke \<lparr>iv_job_type = HOURLY, iv_job_id = ''capture_slave'', iv_username = ''alice'',
          iv_config = cfg_hourly, iv_execution_id = ''capture_slave_2024-05-06_02:00:00'',
          iv_china_now = t0\<rparr>,
        MarkStatus ''alice'' ''capture_slave_2024-05-06_02:00:00'' ''completed'',
        ActiveRemove ''capture_slave_2024-05-06_02:00:00'']"
proof -
  let ?x = "''capture_slave_2024-05-06_02:00:00''"
  let ?t = "[(''alice'', ?x) \<mapsto> pending_entity ''capture_slave'' ''hourly'' t0]"
  have a: "st_table s_hourly = Some ?t" "st_active_jobs s_hourly = Some Map.empty"
    "st_events s_hourly = []"
    by (simp_all add: s_hourly_def)
  have b: "?t (''alice'', ?x) = Some (pending_entity ''capture_slave'' ''hourly'' t0)" by simp
  have c: "HOURLY = HOURLY \<longrightarrow> (\<exists>nt. next_hourly_time t0 cfg_hourly = Inr nt \<and>
             generate_execution_id ''capture_slave'' nt \<noteq> ?x)"
    using next_hourly_t0 next_id_t0 by blast
  have d: "exs0 ''capture_slave'' = Some (\<lambda>_. Returned, ''capture'')" "lg0 ''alice'' = Returned"
    by (simp_all add: exs0_def lg0_def)
  have e: "execution_start_time (pending_entity ''capture_slave'' ''hourly'' t0) = None"
    "c_running clk0 = t0"
    by (simp_all add: pending_entity_def clk0_def)
  let ?b = "job_body exs0 lg0 clk0 ''alice'' ''capture_slave'' cfg_hourly HOURLY t0 ?x s_hourly"
  let ?r = "execute_single_job exs0 lg0 clk0 ''alice'' ''capture_slave'' cfg_hourly HOURLY t0 ?x
              s_hourly"
  have f: "(fst ?b, snd ?b) = ?b" "(fst ?r, snd ?r) = ?r" by simp_all
  from worker_lifecycle [OF a(1) b a(2) c f] d e a(3)
  show ?thesis by auto
qed

section \<open>Properties of the recovery of missed jobs\<close>

lemma query_entities_mem:
  "(k, e) \<in> set (query_entities t rows P) \<longleftrightarrow> k \<in> set rows \<and> t k = Some e \<and> P e"
  by (auto simp add: query_entities_def split: option.splits if_splits)

lemma query_entities_distinct:
  "distinct rows \<Longrightarrow> distinct (map fst (query_entities t rows P))"
proof (induction rows)
  case Nil
  then show ?case by (simp add: query_entities_def)
next
  case (Cons k rows)
  have "fst ` set (query_entities t rows P) \<subseteq> set rows"
    using query_entities_mem [of _ _ t rows P] by force
  with Cons show ?case
    by (auto simp add: query_entities_def split: option.splits)
qed

lemma missed_iff:
  "(k, e) \<in> set (get_missed_jobs (Some t) rows now) \<longleftrightarrow>
     k \<in> set rows \<and> t k = Some e \<and> (status e = ''pending'' \<or> status e = ''running'') \<and>
     (\<exists>sched. scheduled_time e = Some sched \<and> dt_lt sched now)"
  using query_entities_mem [of k e t rows]
  by (auto simp add: get_missed_jobs_def scheduled_before_def split: option.splits)

lemma missed_distinct:
  "distinct rows \<Longrightarrow> distinct (map fst (get_missed_jobs (Some t) rows now))"
  unfolding get_missed_jobs_def
  by (simp add: distinct_map_filter query_entities_distinct)

lemma stuck_iff:
  "stuck now e \<longleftrightarrow>
     status e = ''running'' \<and>
     (\<exists>start. execution_start_time e = Some start \<and>
        dt_micros now - dt_micros start > 2 * 3600 * 1000000)"
  by (auto simp add: stuck_def split: option.splits)

lemma recover_one_events:
  "st_events (fst (recover_one exs fmt now clk s r)) = st_events s @ recovery_events exs now r"
  by (simp add: recover_one_def recovery_events_def Let_def do_update_def
      split: option.splits outcome.splits)

lemma recover_one_table:
  assumes "st_table s = Some t"
  shows "st_table (fst (recover_one exs fmt now clk s r)) =
           Some (case t (fst r) of None \<Rightarrow> t
                 | Some e \<Rightarrow> t(fst r \<mapsto> recovered_entity exs fmt now clk r e))"
  using assms
  by (cases "t (fst r)")
     (simp_all add: recover_one_def recovered_entity_def Let_def do_update_def
       update_job_execution_status_def split: option.splits outcome.splits)

lemma recover_one_caught:
  assumes "\<forall>info ex. exs (job_id (snd r)) = Some info \<and>
             fst info (fst (fst r), empty_config) = Raised ex \<longrightarrow> is_exception ex"
  shows "snd (recover_one exs fmt now clk s r) = None"
  using assms
  by (auto simp add: recover_one_def Let_def split: option.splits outcome.splits)

lemma recover_all_caught:
  assumes "\<forall>r \<in> set rs. \<forall>info ex. exs (job_id (snd r)) = Some info \<and>
             fst info (fst (fst r), empty_config) = Raised ex \<longrightarrow> is_exception ex"
  shows "recover_all exs fmt now clk rs s =
           (foldl (\<lambda>s r. fst (recover_one exs fmt now clk s r)) s rs, None)"
  using assms
proof (induction rs arbitrary: s)
  case Nil
  then show ?case by simp
next
  case (Cons r rs)
  have here: "\<forall>info ex. exs (job_id (snd r)) = Some info \<and>
             fst info (fst (fst r), empty_config) = Raised ex \<longrightarrow> is_exception ex"
    using Cons.prems by (meson list.set_intros(1))
  have rest: "\<forall>r \<in> set rs. \<forall>info ex. exs (job_id (snd r)) = Some info \<and>
             fst info (fst (fst r), empty_config) = Raised ex \<longrightarrow> is_exception ex"
    using Cons.prems by (meson list.set_intros(2))
  have "snd (recover_one exs fmt now clk s r) = None"
    using here by (rule recover_one_caught)
  then obtain s1 where s1: "recover_one exs fmt now clk s r = (s1, None)"
    by (cases "recover_one exs fmt now clk s r") simp
  have "recover_all exs fmt now clk rs s1 =
      (foldl (\<lambda>s r. fst (recover_one exs fmt now clk s r)) s1 rs, None)"
    using rest by (rule Cons.IH)
  with s1 show ?case by simp
qed

lemma recover_fold_events:
  "st_events (foldl (\<lambda>s r. fst (recover_one exs fmt now clk s r)) s rs) =
     st_events s @ concat (map (recovery_events exs now) rs)"
  by (induction rs arbitrary: s) (simp_all add: recover_one_events)

lemma recover_fold_table:
  assumes "st_table s = Some t" "distinct (map fst rs)"
  shows "\<exists>t'. st_table (foldl (\<lambda>s r. fst (recover_one exs fmt now clk s r)) s rs) = Some t' \<and>
           (\<forall>k. k \<notin> fst ` set rs \<longrightarrow> t' k = t k) \<and>
           (\<forall>r \<in> set rs. \<forall>e. t (fst r) = Some e \<longrightarrow>
               t' (fst r) = Some (recovered_entity exs fmt now clk r e))"
  using assms
proof (induction rs arbitrary: s t)
  case Nil
  then show ?case by simp
next
  case (Cons r rs)
  let ?f = "\<lambda>s r. fst (recover_one exs fmt now clk s r)"
  let ?t1 = "case t (fst r) of None \<Rightarrow> t
             | Some e \<Rightarrow> t(fst r \<mapsto> recovered_entity exs fmt now clk r e)"
  have s1: "st_table (?f s r) = Some ?t1"
    by (rule recover_one_table [OF Cons.prems(1)])
  have d: "distinct (map fst rs)" "fst r \<notin> fst ` set rs" using Cons.prems(2) by auto
  from Cons.IH [OF s1 d(1)] obtain t' where
    t': "st_table (foldl ?f (?f s r) rs) = Some t'"
    and keep: "\<forall>k. k \<notin> fst ` set rs \<longrightarrow> t' k = ?t1 k"
    and rest: "\<forall>q \<in> set rs. \<forall>e. ?t1 (fst q) = Some e \<longrightarrow>
                 t' (fst q) = Some (recovered_entity exs fmt now clk q e)"
    by blast
  have other: "?t1 k = t k" if "k \<noteq> fst r" for k
    using that by (simp split: option.splits)
  have own: "?t1 (fst r) = Some (recovered_entity exs fmt now clk r e)" if "t (fst r) = Some e" for e
    using that by simp
  have a: "\<forall>k. k \<notin> fst ` set (r # rs) \<longrightarrow> t' k = t k"
    using keep other by auto
  have b: "t' (fst q) = Some (recovered_entity exs fmt now clk q e)"
    if q: "q \<in> set (r # rs)" and e: "t (fst q) = Some e" for q e
  proof (cases "q \<in> set rs")
    case True
    then have "fst q \<noteq> fst r" using d(2) by (metis imageI)
    then have "?t1 (fst q) = Some e" using other e by simp
    with rest True show ?thesis by blast
  next
    case False
    with q have qr: "q = r" by simp
    have "t' (fst r) = ?t1 (fst r)" using keep d(2) by blast
    with qr have "t' (fst q) = ?t1 (fst r)" by simp
    with own e qr show ?thesis by simp
  qed
  from t' a b show ?case by auto
qed

lemma recovery_events_concern:
  "filter (concerns k) (recovery_events exs now r) = (if k = fst r then recovery_events exs now r else [])"
  by (auto simp add: recovery_events_def Let_def split: option.splits outcome.splits)

lemma recovery_events_project:
  assumes "distinct (map fst rs)" "r \<in> set rs"
  shows "filter (concerns (fst r)) (concat (map (recovery_events exs now) rs)) = recovery_events exs now r"
  using assms
proof (induction rs)
  case Nil
  then show ?case by simp
next
  case (Cons q rs)
  show ?case
  proof (cases "q = r")
    case True
    then have "fst r \<notin> fst ` set rs" using Cons.prems(1) by auto
    then have "filter (concerns (fst r)) (concat (map (recovery_events exs now) rs)) = []"
      by (induction rs) (auto simp add: recovery_events_concern)
    with True show ?thesis by (simp add: recovery_events_concern)
  next
    case False
    with Cons.prems have r: "r \<in> set rs" by simp
    with Cons.prems(1) have "fst q \<noteq> fst r" by (metis distinct.simps(2) imageI list.simps(9) list.set_map)
    moreover have "filter (concerns (fst r)) (concat (map (recovery_events exs now) rs))
                     = recovery_events exs now r"
      using Cons.IH Cons.prems(1) r by simp
    ultimately show ?thesis by (simp add: recovery_events_concern)
  qed
qed

lemma startup_other:
  "api_env \<noteq> ''production'' \<Longrightarrow>
     lifespan_startup api_env exs fmt clk rows users china_now now_missed now_init s = (s, None)"
  by (simp add: lifespan_startup_def)

lemma startup_initialise:
  "\<not> check_job_records_exist_for_date (st_table s) rows china_now \<Longrightarrow>
     lifespan_startup ''production'' exs fmt clk rows users china_now now_missed now_init s =
       (s\<lparr>st_table := fst (initialize_daily_job_records (st_table s) rows now_init
                            (Some china_now) users)\<rparr>, None)"
  by (simp add: lifespan_startup_def)

lemma startup_recover:
  "check_job_records_exist_for_date (st_table s) rows china_now \<Longrightarrow>
     lifespan_startup ''production'' exs fmt clk rows users china_now now_missed now_init s =
       recover_all exs fmt china_now clk (get_missed_jobs (st_table s) rows now_missed) s"
  by (simp add: lifespan_startup_def)

lemma orphan_missed:
  "((''alice'', ''old_job_2024-05-06_01:00:00''), pending_entity ''old_job'' ''daily'' t_early)
     \<in> set (get_missed_jobs (st_table s_orphan) [(''alice'', ''old_job_2024-05-06_01:00:00'')] t1)"
  by code_simp

lemma orphan_events:
  "st_events (fst (lifespan_startup ''production'' exs0 fmt0 (\<lambda>_. clk0)
       [(''alice'', ''old_job_2024-05-06_01:00:00'')] [] t1 t1 t1 s_orphan)) =
     [MarkStatus ''alice'' ''old_job_2024-05-06_01:00:00'' ''running'',
      MarkStatus ''alice'' ''old_job_2024-05-06_01:00:00'' ''failed'']"
  by code_simp

lemma orphan_message:
  "map_option error_message (the (st_table (fst (lifespan_startup ''production'' exs0 fmt0
       (\<lambda>_. clk0) [(''alice'', ''old_job_2024-05-06_01:00:00'')] [] t1 t1 t1 s_orphan)))
       (''alice'', ''old_job_2024-05-06_01:00:00'')) = Some (Some ''Executor not found for job old_job'')"
  by code_simp

lemma stale_missed:
  "((''alice'', ''auto_challenge_2024-05-05_23:00:00''),
      pending_entity ''auto_challenge'' ''daily'' t_yesterday)
     \<in> set (get_missed_jobs (st_table s_stale) [(''alice'', ''auto_challenge_2024-05-05_23:00:00'')] t1)"
  by code_simp

lemma stale_events:
  "st_events (fst (lifespan_startup ''production'' exs0 fmt0 (\<lambda>_. clk0)
       [(''alice'', ''auto_challenge_2024-05-05_23:00:00'')] [] t1 t1 t1 s_stale)) = []"
  by code_simp

lemma stale_gone:
  "the (st_table (fst (lifespan_startup ''production'' exs0 fmt0 (\<lambda>_. clk0)
       [(''alice'', ''auto_challenge_2024-05-05_23:00:00'')] [] t1 t1 t1 s_stale)))
       (''alice'', ''auto_challenge_2024-05-05_23:00:00'') = None"
  by code_simp

lemma missed_missed:
  "((''alice'', ''auto_challenge_2024-05-06_01:00:00''),
      pending_entity ''auto_challenge'' ''daily'' t_early)
     \<in> set (get_missed_jobs (st_table s_missed) [(''alice'', ''auto_challenge_2024-05-06_01:00:00'')] t1)"
  by code_simp

lemma local_events:
  "st_events (fst (lifespan_startup ''development'' exs0 fmt0 (\<lambda>_. clk0)
       [(''alice'', ''auto_challenge_2024-05-06_01:00:00'')] [] t1 t1 t1 s_missed)) = []"
  by code_simp

lemma local_status:
  "map_option status (the (st_table (fst (lifespan_startup ''development'' exs0 fmt0 (\<lambda>_. clk0)
       [(''alice'', ''auto_challenge_2024-05-06_01:00:00'')] [] t1 t1 t1 s_missed)))
       (''alice'', ''auto_challenge_2024-05-06_01:00:00'')) = Some ''pending''"
  by code_simp

lemma exit_events:
  "st_events (fst (lifespan_startup ''production'' exs_exit fmt0 (\<lambda>_. clk0)
       [(''alice'', ''auto_challenge_2024-05-06_01:00:00'')] [] t1 t1 t1 s_missed)) =
     [MarkStatus ''alice'' ''auto_challenge_2024-05-06_01:00:00'' ''running'',
      Invoke \<lparr>iv_job_type = ''daily'', iv_job_id = ''auto_challenge'', iv_username = ''alice'',
        iv_config = empty_config, iv_execution_id = ''auto_challenge_2024-05-06_01:00:00'',
        iv_china_now = t1\<rparr>]"
  by code_simp

lemma exit_status:
  "map_option status (the (st_table (fst (lifespan_startup ''production'' exs_exit fmt0 (\<lambda>_. clk0)
       [(''alice'', ''auto_challenge_2024-05-06_01:00:00'')] [] t1 t1 t1 s_missed)))
       (''alice'', ''auto_challenge_2024-05-06_01:00:00'')) = Some ''running''"
  by code_simp

lemma exit_raised:
  "snd (lifespan_startup ''production'' exs_exit fmt0 (\<lambda>_. clk0)
       [(''alice'', ''auto_challenge_2024-05-06_01:00:00'')] [] t1 t1 t1 s_missed) =
     Some (SystemExit ''1'')"
  by code_simp

text \<open>
  Claim C4, as stated: at a restart every pending or running record with a scheduled time
  in the past is either marked failed as stuck or executed exactly once, ending completed
  or failed with the exception text.  It fails in four ways.  A missed record whose job has
  no registered executor is marked failed with "Executor not found" and nothing is
  executed.  When the table holds no record scheduled today, \<open>lifespan\<close> initialises
  the records instead of recovering: a pending record of yesterday is deleted by the
  cleanup and its job, though its executor is registered, is not executed.  Outside
  production \<open>lifespan\<close> leaves a missed record pending and executes nothing.  And an
  executor that raises \<open>SystemExit\<close> passes both clauses \<open>except Exception\<close>: the record
  stays running and the exception leaves \<open>lifespan\<close>.
\<close>

theorem missed_job_recovery_counterexample:
  "((''alice'', ''old_job_2024-05-06_01:00:00''), pending_entity ''old_job'' ''daily'' t_early)
     \<in> set (get_missed_jobs (st_table s_orphan) [(''alice'', ''old_job_2024-05-06_01:00:00'')] t1) \<and>
   st_events (fst (lifespan_startup ''production'' exs0 fmt0 (\<lambda>_. clk0)
       [(''alice'', ''old_job_2024-05-06_01:00:00'')] [] t1 t1 t1 s_orphan)) =
     [MarkStatus ''alice'' ''old_job_2024-05-06_01:00:00'' ''running'',
      MarkStatus ''alice'' ''old_job_2024-05-06_01:00:00'' ''failed''] \<and>
   map_option error_message (the (st_table (fst (lifespan_startup ''production'' exs0 fmt0
       (\<lambda>_. clk0) [(''alice'', ''old_job_2024-05-06_01:00:00'')] [] t1 t1 t1 s_orphan)))
       (''alice'', ''old_job_2024-05-06_01:00:00'')) = Some (Some ''Executor not found for job old_job'') \<and>
   ((''alice'', ''auto_challenge_2024-05-05_23:00:00''),
      pending_entity ''auto_challenge'' ''daily'' t_yesterday)
     \<in> set (get_missed_jobs (st_table s_stale) [(''alice'', ''auto_challenge_2024-05-05_23:00:00'')] t1) \<and>
   exs0 ''auto_challenge'' \<noteq> None \<and>
   st_events (fst (lifespan_startup ''production'' exs0 fmt0 (\<lambda>_. clk0)
       [(''alice'', ''auto_challenge_2024-05-05_23:00:00'')] [] t1 t1 t1 s_stale)) = [] \<and>
   the (st_table (fst (lifespan_startup ''production'' exs0 fmt0 (\<lambda>_. clk0)
       [(''alice'', ''auto_challenge_2024-05-05_23:00:00'')] [] t1 t1 t1 s_stale)))
       (''alice'', ''auto_challenge_2024-05-05_23:00:00'') = None \<and>
   ((''alice'', ''auto_challenge_2024-05-06_01:00:00''),
      pending_entity ''auto_challenge'' ''daily'' t_early)
     \<in> set (get_missed_jobs (st_table s_missed) [(''alice'', ''auto_challenge_2024-05-06_01:00:00'')] t1) \<and>
   st_events (fst (lifespan_startup ''development'' exs0 fmt0 (\<lambda>_. clk0)
       [(''alice'', ''auto_challenge_2024-05-06_01:00:00'')] [] t1 t1 t1 s_missed)) = [] \<and>
   map_option status (the (st_table (fst (lifespan_startup ''development'' exs0 fmt0 (\<lambda>_. clk0)
       [(''alice'', ''auto_challenge_2024-05-06_01:00:00'')] [] t1 t1 t1 s_missed)))
       (''alice'', ''auto_challenge_2024-05-06_01:00:00'')) = Some ''pending'' \<and>
   st_events (fst (lifespan_startup ''production'' exs_exit fmt0 (\<lambda>_. clk0)
       [(''alice'', ''auto_challenge_2024-05-06_01:00:00'')] [] t1 t1 t1 s_missed)) =
     [MarkStatus ''alice'' ''auto_challenge_2024-05-06_01:00:00'' ''running'',
      Invoke \<lparr>iv_job_type = ''daily'', iv_job_id = ''auto_challenge'', iv_username = ''alice'',
        iv_config = empty_config, iv_execution_id = ''auto_challenge_2024-05-06_01:00:00'',
        iv_china_now = t1\<rparr>] \<and>
   map_option status (the (st_table (fst (lifespan_startup ''production'' exs_exit fmt0 (\<lambda>_. clk0)
       [(''alice'', ''auto_challenge_2024-05-06_01:00:00'')] [] t1 t1 t1 s_missed)))
       (''alice'', ''auto_challenge_2024-05-06_01:00:00'')) = Some ''running'' \<and>
   snd (lifespan_startup ''production'' exs_exit fmt0 (\<lambda>_. clk0)
       [(''alice'', ''auto_challenge_2024-05-06_01:00:00'')] [] t1 t1 t1 s_missed) =
     Some (SystemExit ''1'')"
  using orphan_missed orphan_events orphan_message stale_missed stale_events stale_gone
    missed_missed local_events local_status exit_events exit_status exit_raised
  by (simp add: exs0_def)

text \<open>
  Claim C4, amended.  The table service lists every row of the table.  At a restart in
  production where the table holds records scheduled today and no executor raises
  anything but an \<open>Exception\<close>, no exception leaves \<open>lifespan\<close> and every record of the
  table with status pending or running and a scheduled time in the past is handled exactly
  once, in this way.  If its status is running and its start time is more than two hours
  old it is marked failed and no executor is called.  Otherwise it is marked running and
  then: with an executor registered under its job id, that executor is called once, on the
  username and an empty configuration, and the record is marked completed when the call
  returns and failed with \<open>str(e)\<close> when it raises \<open>e\<close> (an empty text leaves the stored
  message); with no executor registered, the record is marked failed with "Executor not
  found" and nothing is called.  At a restart in production where the table holds no
  record scheduled today, the records are initialised and nothing is executed.  Outside
  production nothing changes.
\<close>

theorem missed_job_recovery:
  assumes tbl: "st_table s = Some t" and rows: "distinct rows" and listed: "dom t \<subseteq> set rows"
    and run: "(s', err) =
       lifespan_startup api_env exs fmt clk rows users china_now now_missed now_init s"
  shows
   "(api_env = ''production'' \<and> check_job_records_exist_for_date (Some t) rows china_now \<and>
     (\<forall>k e info ex. t k = Some e \<and> exs (job_id e) = Some info \<and>
         fst info (fst k, empty_config) = Raised ex \<longrightarrow> is_exception ex) \<longrightarrow>
     err = None \<and>
     (\<forall>u x e sched.
        t (u, x) = Some e \<and> (status e = ''pending'' \<or> status e = ''running'') \<and>
        scheduled_time e = Some sched \<and> dt_lt sched now_missed \<longrightarrow>
        (\<exists>t' e'. st_table s' = Some t' \<and> t' (u, x) = Some e' \<and>
           (if status e = ''running'' \<and>
               (\<exists>start. execution_start_time e = Some start \<and>
                  dt_micros china_now - dt_micros start > 2 * 3600 * 1000000)
            then
              status e' = ''failed'' \<and>
              filter (concerns (u, x)) (st_events s') =
                filter (concerns (u, x)) (st_events s) @ [MarkStatus u x ''failed'']
            else
              (case exs (job_id e) of
                 None \<Rightarrow>
                   status e' = ''failed'' \<and>
                   error_message e' = Some (''Executor not found for job '' @ job_id e) \<and>
                   filter (concerns (u, x)) (st_events s') =
                     filter (concerns (u, x)) (st_events s) @
                       [MarkStatus u x ''running'', MarkStatus u x ''failed'']
               | Some info \<Rightarrow>
                   (case fst info (u, empty_config) of
                      Returned \<Rightarrow>
                        status e' = ''completed'' \<and>
                        filter (concerns (u, x)) (st_events s') =
                          filter (concerns (u, x)) (st_events s) @
                            [MarkStatus u x ''running'',
                             Invoke \<lparr>iv_job_type = job_type e, iv_job_id = job_id e,
                               iv_username = u, iv_config = empty_config, iv_execution_id = x,
                               iv_china_now = china_now\<rparr>,
                             MarkStatus u x ''completed'']
                    | Raised ex \<Rightarrow>
                        status e' = ''failed'' \<and>
                        error_message e' =
                          (if str_of_error ex = [] then error_message e
                           else Some (str_of_error ex)) \<and>
                        filter (concerns (u, x)) (st_events s') =
                          filter (concerns (u, x)) (st_events s) @
                            [MarkStatus u x ''running'',
                             Invoke \<lparr>iv_job_type = job_type e, iv_job_id = job_id e,
                               iv_username = u, iv_config = empty_config, iv_execution_id = x,
                               iv_china_now = china_now\<rparr>,
                             MarkStatus u x ''failed''])))))) \<and>
    (api_env = ''production'' \<and> \<not> check_job_records_exist_for_date (Some t) rows china_now \<longrightarrow>
     err = None \<and> st_events s' = st_events s \<and>
     st_table s' =
       fst (initialize_daily_job_records (Some t) rows now_init (Some china_now) users)) \<and>
    (api_env \<noteq> ''production'' \<longrightarrow> err = None \<and> s' = s)"
proof (intro conjI impI)
  assume "api_env \<noteq> ''production''"
  with run show "err = None" "s' = s" by (simp_all add: startup_other)
next
  assume a: "api_env = ''production'' \<and> \<not> check_job_records_exist_for_date (Some t) rows china_now"
  with run tbl show "err = None" "st_events s' = st_events s"
    "st_table s' = fst (initialize_daily_job_records (Some t) rows now_init (Some china_now) users)"
    by (simp_all add: startup_initialise)
next
  assume a: "api_env = ''production'' \<and> check_job_records_exist_for_date (Some t) rows china_now \<and>
     (\<forall>k e info ex. t k = Some e \<and> exs (job_id e) = Some info \<and>
         fst info (fst k, empty_config) = Raised ex \<longrightarrow> is_exception ex)"
  let ?rs = "get_missed_jobs (Some t) rows now_missed"
  let ?f = "\<lambda>s r. fst (recover_one exs fmt china_now clk s r)"
  have caught: "\<forall>r \<in> set ?rs. \<forall>info ex. exs (job_id (snd r)) = Some info \<and>
             fst info (fst (fst r), empty_config) = Raised ex \<longrightarrow> is_exception ex"
  proof (intro ballI allI impI)
    fix r info ex
    assume r: "r \<in> set ?rs"
      and c: "exs (job_id (snd r)) = Some info \<and> fst info (fst (fst r), empty_config) = Raised ex"
    from r have "t (fst r) = Some (snd r)"
      using missed_iff [of "fst r" "snd r" t rows now_missed] by simp
    with a c show "is_exception ex" by blast
  qed
  have all: "(s', err) = (foldl ?f s ?rs, None)"
    using run a tbl recover_all_caught [OF caught, of fmt china_now clk s]
    by (simp add: startup_recover)
  then show "err = None" by simp
  from all have s': "s' = foldl ?f s ?rs" by simp
  have d: "distinct (map fst ?rs)" by (rule missed_distinct [OF rows])
  show "\<forall>u x e sched.
        t (u, x) = Some e \<and> (status e = ''pending'' \<or> status e = ''running'') \<and>
        scheduled_time e = Some sched \<and> dt_lt sched now_missed \<longrightarrow>
        (\<exists>t' e'. st_table s' = Some t' \<and> t' (u, x) = Some e' \<and>
           (if status e = ''running'' \<and>
               (\<exists>start. execution_start_time e = Some start \<and>
                  dt_micros china_now - dt_micros start > 2 * 3600 * 1000000)
            then
              status e' = ''failed'' \<and>
              filter (concerns (u, x)) (st_events s') =
                filter (concerns (u, x)) (st_events s) @ [MarkStatus u x ''failed'']
            else
              (case exs (job_id e) of
                 None \<Rightarrow>
                   status e' = ''failed'' \<and>
                   error_message e' = Some (''Executor not found for job '' @ job_id e) \<and>
                   filter (concerns (u, x)) (st_events s') =
                     filter (concerns (u, x)) (st_events s) @
                       [MarkStatus u x ''running'', MarkStatus u x ''failed'']
               | Some info \<Rightarrow>
                   (case fst info (u, empty_config) of
                      Returned \<Rightarrow>
                        status e' = ''completed'' \<and>
                        filter (concerns (u, x)) (st_events s') =
                          filter (concerns (u, x)) (st_events s) @
                            [MarkStatus u x ''running'',
                             Invoke \<lparr>iv_job_type = job_type e, iv_job_id = job_id e,
                               iv_username = u, iv_config = empty_config, iv_execution_id = x,
                               iv_china_now = china_now\<rparr>,
                             MarkStatus u x ''completed'']
                    | Raised ex \<Rightarrow>
                        status e' = ''failed'' \<and>
                        error_message e' =
                          (if str_of_error ex = [] then error_message e
                           else Some (str_of_error ex)) \<and>
                        filter (concerns (u, x)) (st_events s') =
                          filter (concerns (u, x)) (st_events s) @
                            [MarkStatus u x ''running'',
                             Invoke \<lparr>iv_job_type = job_type e, iv_job_id = job_id e,
                               iv_username = u, iv_config = empty_config, iv_execution_id = x,
                               iv_china_now = china_now\<rparr>,
                             MarkStatus u x ''failed'']))))"
  proof (intro allI impI)
    fix u x e sched
    assume h: "t (u, x) = Some e \<and> (status e = ''pending'' \<or> status e = ''running'') \<and>
        scheduled_time e = Some sched \<and> dt_lt sched now_missed"
    let ?r = "((u, x), e)"
    have "(u, x) \<in> set rows" using h listed by blast
    with h have missed: "?r \<in> set ?rs" by (simp add: missed_iff)
    from recover_fold_table [OF tbl d, of exs fmt china_now clk] missed h s'
    obtain t' where t': "st_table s' = Some t'"
      and e': "t' (u, x) = Some (recovered_entity exs fmt china_now clk ?r e)"
      by force
    have ev: "filter (concerns (u, x)) (st_events s') =
                filter (concerns (u, x)) (st_events s) @ recovery_events exs china_now ?r"
      using recovery_events_project [OF d missed, of exs china_now]
      by (simp add: s' recover_fold_events)
    have exc: "is_exception ex" if "exs (job_id e) = Some info" "fst info (u, empty_config) = Raised ex"
      for info ex
      using a h that by (metis fst_conv)
    let ?e' = "recovered_entity exs fmt china_now clk ?r e"
    have "if status e = ''running'' \<and>
               (\<exists>start. execution_start_time e = Some start \<and>
                  dt_micros china_now - dt_micros start > 2 * 3600 * 1000000)
            then
              status ?e' = ''failed'' \<and>
              filter (concerns (u, x)) (st_events s') =
                filter (concerns (u, x)) (st_events s) @ [MarkStatus u x ''failed'']
            else
              (case exs (job_id e) of
                 None \<Rightarrow>
                   status ?e' = ''failed'' \<and>
                   error_message ?e' = Some (''Executor not found for job '' @ job_id e) \<and>
                   filter (concerns (u, x)) (st_events s') =
                     filter (concerns (u, x)) (st_events s) @
                       [MarkStatus u x ''running'', MarkStatus u x ''failed'']
               | Some info \<Rightarrow>
                   (case fst info (u, empty_config) of
                      Returned \<Rightarrow>
                        status ?e' = ''completed'' \<and>
                        filter (concerns (u, x)) (st_events s') =
                          filter (concerns (u, x)) (st_events s) @
                            [MarkStatus u x ''running'',
                             Invoke \<lparr>iv_job_type = job_type e, iv_job_id = job_id e,
                               iv_username = u, iv_config = empty_config, iv_execution_id = x,
                               iv_china_now = china_now\<rparr>,
                             MarkStatus u x ''completed'']
                    | Raised ex \<Rightarrow>
                        status ?e' = ''failed'' \<and>
                        error_message ?e' =
                          (if str_of_error ex = [] then error_message e
                           else Some (str_of_error ex)) \<and>
                        filter (concerns (u, x)) (st_events s') =
                          filter (concerns (u, x)) (st_events s) @
                            [MarkStatus u x ''running'',
                             Invoke \<lparr>iv_job_type = job_type e, iv_job_id = job_id e,
                               iv_username = u, iv_config = empty_config, iv_execution_id = x,
                               iv_china_now = china_now\<rparr>,
                             MarkStatus u x ''failed'']))"
    proof (cases "stuck china_now e")
      case True
      then show ?thesis
        unfolding ev stuck_iff [of china_now e, symmetric]
        by (simp add: recovered_entity_def recovery_events_def Let_def apply_status_fields)
    next
      case False
      show ?thesis
      proof (cases "exs (job_id e)")
        case None
        with False show ?thesis
          unfolding ev stuck_iff [of china_now e, symmetric]
          by (simp add: recovered_entity_def recovery_events_def Let_def apply_status_fields
              truthy_def)
      next
        case (Some info)
        show ?thesis
        proof (cases "fst info (u, empty_config)")
          case Returned
          with False Some show ?thesis
            unfolding ev stuck_iff [of china_now e, symmetric]
            by (simp add: recovered_entity_def recovery_events_def Let_def apply_status_fields
                truthy_def)
        next
          case (Raised ex)
          with exc [OF Some] have "is_exception ex" by simp
          with False Some Raised show ?thesis
            unfolding ev stuck_iff [of china_now e, symmetric]
            by (simp add: recovered_entity_def recovery_events_def Let_def apply_status_fields
                truthy_def)
        qed
      qed
    qed
    with t' e' show "\<exists>t' e'. st_table s' = Some t' \<and> t' (u, x) = Some e' \<and>
           (if status e = ''running'' \<and>
               (\<exists>start. execution_start_time e = Some start \<and>
                  dt_micros china_now - dt_micros start > 2 * 3600 * 1000000)
            then
              status e' = ''failed'' \<and>
              filter (concerns (u, x)) (st_events s') =
                filter (concerns (u, x)) (st_events s) @ [MarkStatus u x ''failed'']
            else
              (case exs (job_id e) of
                 None \<Rightarrow>
                   status e' = ''failed'' \<and>
                   error_message e' = Some (''Executor not found for job '' @ job_id e) \<and>
                   filter (concerns (u, x)) (st_events s') =
                     filter (concerns (u, x)) (st_events s) @
                       [MarkStatus u x ''running'', MarkStatus u x ''failed'']
               | Some info \<Rightarrow>
                   (case fst info (u, empty_config) of
                      Returned \<Rightarrow>
                        status e' = ''completed'' \<and>
                        filter (concerns (u, x)) (st_events s') =
                          filter (concerns (u, x)) (st_events s) @
                            [MarkStatus u x ''running'',
                             Invoke \<lparr>iv_job_type = job_type e, iv_job_id = job_id e,
                               iv_username = u, iv_config = empty_config, iv_execution_id = x,
                               iv_china_now = china_now\<rparr>,
                             MarkStatus u x ''completed'']
                    | Raised ex \<Rightarrow>
                        status e' = ''failed'' \<and>
                        error_message e' =
                          (if str_of_error ex = [] then error_message e
                           else Some (str_of_error ex)) \<and>
                        filter (concerns (u, x)) (st_events s') =
                          filter (concerns (u, x)) (st_events s) @
                            [MarkStatus u x ''running'',
                             Invoke \<lparr>iv_job_type = job_type e, iv_job_id = job_id e,
                               iv_username = u, iv_config = empty_config, iv_execution_id = x,
                               iv_china_now = china_now\<rparr>,
                             MarkStatus u x ''failed''])))"
      by blast
  qed
qed

lemma two_today: "check_job_records_exist_for_date (st_table s_two) rows_two t1"
  by code_simp

lemma two_past: "dt_lt t_early t1" "dt_lt t_yesterday t1"
  by code_simp+

lemma two_old: "dt_micros t1 - dt_micros t_yesterday > 2 * 3600 * 1000000"
  by code_simp

theorem missed_job_recovery_witness:
  "snd (lifespan_startup ''production'' exs0 fmt0 (\<lambda>_. clk0) rows_two [] t1 t1 t1 s_two) = None \<and>
   (\<exists>t' e'. st_table (fst (lifespan_startup ''production'' exs0 fmt0 (\<lambda>_. clk0) rows_two [] t1 t1
                 t1 s_two)) = Some t' \<and>
      t' (''alice'', ''auto_challenge_2024-05-06_01:00:00'') = Some e' \<and>
      status e' = ''completed'' \<and>
      filter (concerns (''alice'', ''auto_challenge_2024-05-06_01:00:00''))
        (st_events (fst (lifespan_startup ''production'' exs0 fmt0 (\<lambda>_. clk0) rows_two [] t1 t1
                 t1 s_two))) =
        [MarkStatus ''alice'' ''auto_challenge_2024-05-06_01:00:00'' ''running'',
         Invoke \<lparr>iv_job_type = ''daily'', iv_job_id = ''auto_challenge'', iv_username = ''alice'',
           iv_config = empty_config, iv_execution_id = ''auto_challenge_2024-05-06_01:00:00'',
           iv_china_now = t1\<rparr>,
         MarkStatus ''alice'' ''auto_challenge_2024-05-06_01:00:00'' ''completed'']) \<and>
   (\<exists>t' e'. st_table (fst (lifespan_startup ''production'' exs0 fmt0 (\<lambda>_. clk0) rows_two [] t1 t1
                 t1 s_two)) = Some t' \<and>
      t' (''bob'', ''morning_routine_2024-05-05_23:00:00'') = Some e' \<and>
      status e' = ''failed'' \<and>
      filter (concerns (''bob'', ''morning_routine_2024-05-05_23:00:00''))
        (st_events (fst (lifespan_startup ''production'' exs0 fmt0 (\<lambda>_. clk0) rows_two [] t1 t1
                 t1 s_two))) =
        [MarkStatus ''bob'' ''morning_routine_2024-05-05_23:00:00'' ''failed''])"
proof -
  let ?xa = "''auto_challenge_2024-05-06_01:00:00''"
  let ?xb = "''morning_routine_2024-05-05_23:00:00''"
  let ?ea = "pending_entity ''auto_challenge'' ''daily'' t_early"
  let ?eb = "(pending_entity ''morning_routine'' ''daily'' t_yesterday)
               \<lparr>status := ''running'', execution_start_time := Some t_yesterday\<rparr>"
  let ?t = "[(''alice'', ?xa) \<mapsto> ?ea, (''bob'', ?xb) \<mapsto> ?eb]"
  let ?run = "lifespan_startup ''production'' exs0 fmt0 (\<lambda>_. clk0) rows_two [] t1 t1 t1 s_two"
  have a: "st_table s_two = Some ?t" "st_events s_two = []"
    by (simp_all add: s_two_def)
  have d: "distinct rows_two" by (simp add: rows_two_def)
  have l: "dom ?t \<subseteq> set rows_two" by (simp add: rows_two_def)
  have r: "(fst ?run, snd ?run) = ?run" by simp
  have today: "check_job_records_exist_for_date (Some ?t) rows_two t1"
    using two_today by (simp add: a)
  have caught: "\<forall>k e info ex. ?t k = Some e \<and> exs0 (job_id e) = Some info \<and>
         fst info (fst k, empty_config) = Raised ex \<longrightarrow> is_exception ex"
    by (auto simp add: exs0_def pending_entity_def split: if_splits)
  from missed_job_recovery [OF a(1) d l r] today caught
  have none: "snd ?run = None"
    and each: "\<And>u x e sched.
        ?t (u, x) = Some e \<Longrightarrow> status e = ''pending'' \<or> status e = ''running'' \<Longrightarrow>
        scheduled_time e = Some sched \<Longrightarrow> dt_lt sched t1 \<Longrightarrow>
        (\<exists>t' e'. st_table (fst ?run) = Some t' \<and> t' (u, x) = Some e' \<and>
           (if status e = ''running'' \<and>
               (\<exists>start. execution_start_time e = Some start \<and>
                  dt_micros t1 - dt_micros start > 2 * 3600 * 1000000)
            then
              status e' = ''failed'' \<and>
              filter (concerns (u, x)) (st_events (fst ?run)) =
                filter (concerns (u, x)) (st_events s_two) @ [MarkStatus u x ''failed'']
            else
              (case exs0 (job_id e) of
                 None \<Rightarrow>
                   status e' = ''failed'' \<and>
                   error_message e' = Some (''Executor not found for job '' @ job_id e) \<and>
                   filter (concerns (u, x)) (st_events (fst ?run)) =
                     filter (concerns (u, x)) (st_events s_two) @
                       [MarkStatus u x ''running'', MarkStatus u x ''failed'']
               | Some info \<Rightarrow>
                   (case fst info (u, empty_config) of
                      Returned \<Rightarrow>
                        status e' = ''completed'' \<and>
                        filter (concerns (u, x)) (st_events (fst ?run)) =
                          filter (concerns (u, x)) (st_events s_two) @
                            [MarkStatus u x ''running'',
                             Invoke \<lparr>iv_job_type = job_type e, iv_job_id = job_id e,
                               iv_username = u, iv_config = empty_config, iv_execution_id = x,
                               iv_china_now = t1\<rparr>,
                             MarkStatus u x ''completed'']
                    | Raised ex \<Rightarrow>
                        status e' = ''failed'' \<and>
                        error_message e' =
                          (if str_of_error ex = [] then error_message e
                           else Some (str_of_error ex)) \<and>
                        filter (concerns (u, x)) (st_events (fst ?run)) =
                          filter (concerns (u, x)) (st_events s_two) @
                            [MarkStatus u x ''running'',
                             Invoke \<lparr>iv_job_type = job_type e, iv_job_id = job_id e,
                               iv_username = u, iv_config = empty_config, iv_execution_id = x,
                               iv_china_now = t1\<rparr>,
                             MarkStatus u x ''failed'']))))"
    by blast+
  have fa: "?t (''alice'', ?xa) = Some ?ea" "status ?ea = ''pending''"
    "scheduled_time ?ea = Some t_early" "job_type ?ea = ''daily''" "job_id ?ea = ''auto_challenge''"
    "exs0 ''auto_challenge'' = Some (\<lambda>_. Returned, ''challenge'')"
    by (simp_all add: pending_entity_def exs0_def)
  have fb: "?t (''bob'', ?xb) = Some ?eb" "status ?eb = ''running''"
    "scheduled_time ?eb = Some t_yesterday" "execution_start_time ?eb = Some t_yesterday"
    by (simp_all add: pending_entity_def)
  from each [OF fa(1) _ fa(3) two_past(1)] fa a(2)
  have alice: "\<exists>t' e'. st_table (fst ?run) = Some t' \<and> t' (''alice'', ?xa) = Some e' \<and>
      status e' = ''completed'' \<and>
      filter (concerns (''alice'', ?xa)) (st_events (fst ?run)) =
        [MarkStatus ''alice'' ?xa ''running'',
         Invoke \<lparr>iv_job_type = ''daily'', iv_job_id = ''auto_challenge'', iv_username = ''alice'',
           iv_config = empty_config, iv_execution_id = ?xa, iv_china_now = t1\<rparr>,
         MarkStatus ''alice'' ?xa ''completed'']"
    by simp
  from each [OF fb(1) _ fb(3) two_past(2)] fb two_old a(2)
  have bob: "\<exists>t' e'. st_table (fst ?run) = Some t' \<and> t' (''bob'', ?xb) = Some e' \<and>
      status e' = ''failed'' \<and>
      filter (concerns (''bob'', ?xb)) (st_events (fst ?run)) = [MarkStatus ''bob'' ?xb ''failed'']"
    by simp
  from none alice bob show ?thesis by blast
qed

section \<open>Properties of a pass under shutdown, and of the wait at exit\<close>

lemma initiate_shutdown_ok:
  "flags_ok fl \<Longrightarrow> list_all flags_ok (initiate_shutdown fl)"
  by (auto simp add: initiate_shutdown_def flags_ok_def)
















end
